theory Spec2Isabelle
  imports Main
begin

section \<open>Data model (models/*.js)\<close>

text \<open>
  A shallow embedding of the GraphQL resolvers of the multi-tenant record store
  (graphql/resolvers.js) over its Mongoose models.  An ObjectId is a natural number; a
  collection is the list of its documents in natural order.  Ids are typed, so the cast
  errors that Mongoose raises for a malformed id string are not part of the model.
  Strings are byte strings and the string functions are modelled on the ASCII range.
\<close>

type_synonym oid = nat

datatype role = Admin | Editor | Viewer

text \<open>The fields of a User document that the resolvers read from \<open>context.user\<close>.\<close>

record user =
  u_id :: oid
  u_tenantId :: oid
  u_role :: role

text \<open>\<open>context.user\<close> is absent (or null) for an anonymous request.\<close>

type_synonym "context" = "user option"

text \<open>
  What a resolver throws: the three Apollo error classes, the plain \<open>Error\<close>, a Mongoose
  validation error, and an error of the MongoDB server, which carries a numeric \<open>code\<close>.
\<close>

datatype error =
    AuthenticationError string
  | ForbiddenError string
  | UserInputError string
  | Error string
  | ValidationError string
  | MongoServerError nat

fun code :: "error \<Rightarrow> nat option" where
  "code (MongoServerError c) = Some c"
| "code _ = None"

text \<open>A value of the schema type \<open>Mixed\<close>: any JSON value.\<close>

datatype jsvalue =
    VNull
  | VBool bool
  | VNumber int
  | VString string
  | VArray "jsvalue list"
  | VObject "(string \<times> jsvalue) list"

text \<open>
  What a Map in memory can hold beside a JSON value: a built-in function that every
  object inherits from \<open>Object.prototype\<close>, known by its property name.
\<close>

datatype held = Json jsvalue | Native string

datatype field_type = Text | Number | Date | Boolean | Select | Multi_select | Relation

record field =
  f_id :: oid
  f_name :: string
  f_type :: field_type
  f_options :: "string list"
  f_relation :: "oid option"

text \<open>The \<open>field\<close> argument of createField and updateField; an attribute left out is None.\<close>

record field_input =
  fi_name :: string
  fi_type :: field_type
  fi_options :: "string list option"
  fi_relation :: "oid option"

record databaseDefinition =
  d_id :: oid
  d_tenantId :: oid
  d_name :: string
  d_fields :: "field list"
  d_isDeleted :: bool
  d_createdAt :: nat

text \<open>
  A Record document.  \<open>values\<close> is a Map: its entries in insertion order, one per key.
\<close>

record mrecord =
  r_id :: oid
  r_tenantId :: oid
  r_databaseId :: oid
  r_values :: "(string \<times> jsvalue) list"
  r_isDeleted :: bool
  r_createdAt :: nat
  r_updatedAt :: nat

datatype action =
    CREATE_DATABASE | DELETE_DATABASE | UPDATE_DATABASE
  | CREATE_FIELD | UPDATE_FIELD | DELETE_FIELD
  | CREATE_RECORD | UPDATE_RECORD | DELETE_RECORD

text \<open>The \<open>details\<close> object of a log entry; each resolver fills in some of its keys.\<close>

record details =
  databaseId :: "oid option"
  databaseName :: "string option"
  recordId :: "oid option"

record activityLog =
  l_tenantId :: oid
  l_userId :: oid
  l_action :: action
  l_details :: details
  l_createdAt :: nat

text \<open>The three collections the resolvers touch.\<close>

record store =
  DatabaseDefinitions :: "databaseDefinition list"
  Records :: "mrecord list"
  ActivityLogs :: "activityLog list"

text \<open>
  What a mutation takes from its environment: the ObjectId generated for a new document
  or sub-document, the value of \<open>Date.now\<close>, and whether \<open>ActivityLog.create\<close> rejects
  (\<open>Some e\<close>: it rejects with \<open>e\<close> and appends nothing).
\<close>

record env =
  newId :: oid
  now :: nat
  logFail :: "error option"

section \<open>Strings\<close>

text \<open>
  \<open>toLowerCase\<close> and \<open>trim\<close> on the ASCII range (a character is a byte here).
\<close>

definition lower_char :: "char \<Rightarrow> char" where
  "lower_char c =
     (case map_of (zip ''ABCDEFGHIJKLMNOPQRSTUVWXYZ'' ''abcdefghijklmnopqrstuvwxyz'') c of
        Some l \<Rightarrow> l
      | None \<Rightarrow> c)"

definition toLowerCase :: "string \<Rightarrow> string" where
  "toLowerCase s = map lower_char s"

definition is_space :: "char \<Rightarrow> bool" where
  "is_space c = (c \<in> set [CHR 0x09, CHR 0x0A, CHR 0x0B, CHR 0x0C, CHR 0x0D, CHR '' ''])"

definition trim :: "string \<Rightarrow> string" where
  "trim s = rev (dropWhile is_space (rev (dropWhile is_space s)))"

section \<open>The query engine of the backing store\<close>

text \<open>
  The resolvers hand three things to MongoDB as they are: the search term, as a \<open>$regex\<close>
  with option \<open>i\<close>; each filter condition; and the sort key.  Their meaning is the
  server's, and is a parameter of the model:
  \<^item> \<open>regex_valid p\<close>: the pattern compiles; \<open>regex_match p opts s\<close>: under the options
    \<open>opts\<close> it matches somewhere in the string \<open>s\<close>;
  \<^item> \<open>cond_valid c\<close>: the condition is a well-formed query predicate; \<open>cond_holds c vs\<close>: it
    holds of a document in which the path leads to the values \<open>vs\<close>;
  \<^item> \<open>bson_le\<close>: the server's comparison order, on what the sort path leads to in two
    documents.
\<close>

record 'c engine =
  regex_valid :: "string \<Rightarrow> bool"
  regex_match :: "string \<Rightarrow> string \<Rightarrow> string \<Rightarrow> bool"
  cond_valid :: "'c \<Rightarrow> bool"
  cond_holds :: "'c \<Rightarrow> jsvalue list \<Rightarrow> bool"
  bson_le :: "jsvalue list \<Rightarrow> jsvalue list \<Rightarrow> bool"

text \<open>
  The stages that the records resolver pushes onto its pipeline.  A path is the key the
  resolver writes, \<open>values.<fieldName>\<close>; an entry of the \<open>$or\<close> is a path with its
  \<open>$regex\<close> and \<open>$options\<close>.
\<close>

datatype 'c stage =
    Match_record oid oid bool
  | Match_or_regex "(string \<times> string \<times> string) list"
  | Match_values "(string \<times> 'c) list"
  | Sort string int
  | Skip int
  | Limit int

text \<open>
  A path is read component by component, split at the dots.  A component selects the
  key of an object; on an array it selects the element at that index, if it is a number,
  and the key in every element that is an object.  So a path leads to a list of values:
  none if it is missing.
\<close>

fun split_dots :: "string \<Rightarrow> string list" where
  "split_dots [] = [[]]"
| "split_dots (c # cs) =
     (if c = CHR ''.'' then [] # split_dots cs
      else (case split_dots cs of w # ws \<Rightarrow> (c # w) # ws | [] \<Rightarrow> [[c]]))"

definition array_index :: "string \<Rightarrow> nat option" where
  "array_index k =
     (if k \<noteq> [] \<and> list_all (\<lambda>c. c \<in> set ''0123456789'') k
      then Some (foldl (\<lambda>n c. 10 * n + (of_char c - 48)) 0 k)
      else None)"

fun path_values :: "string list \<Rightarrow> jsvalue \<Rightarrow> jsvalue list" where
  "path_values [] v = [v]"
| "path_values (k # ks) (VObject kvs) =
     (case map_of kvs k of None \<Rightarrow> [] | Some v \<Rightarrow> path_values ks v)"
| "path_values (k # ks) (VArray vs) =
     (case array_index k of
        None \<Rightarrow> []
      | Some n \<Rightarrow> if n < length vs then path_values ks (vs ! n) else []) @
     concat (map (\<lambda>v. case v of
                         VObject kvs \<Rightarrow>
                           (case map_of kvs k of None \<Rightarrow> [] | Some w \<Rightarrow> path_values ks w)
                       | _ \<Rightarrow> []) vs)"
| "path_values (k # ks) _ = []"

text \<open>
  What a path leads to in a Record document.  The resolver builds paths under \<open>values\<close>
  only, so that is the one top-level key read here.
\<close>

definition at_path :: "mrecord \<Rightarrow> string \<Rightarrow> jsvalue list" where
  "at_path r path =
     (case split_dots path of
        [] \<Rightarrow> []
      | k # ks \<Rightarrow> if k = ''values'' then path_values ks (VObject (r_values r)) else [])"

text \<open>
  \<open>{$regex: p, $options: opts}\<close> on a path: a string that the path leads to is matched,
  an array matches when one of its string elements does, and any other value does not.
\<close>

fun regex_elem :: "'c engine \<Rightarrow> string \<Rightarrow> string \<Rightarrow> jsvalue \<Rightarrow> bool" where
  "regex_elem eng p opts (VString s) = regex_match eng p opts s"
| "regex_elem eng p opts _ = False"

fun regex_value :: "'c engine \<Rightarrow> string \<Rightarrow> string \<Rightarrow> jsvalue \<Rightarrow> bool" where
  "regex_value eng p opts (VArray vs) = list_ex (regex_elem eng p opts) vs"
| "regex_value eng p opts v = regex_elem eng p opts v"

definition regex_holds :: "'c engine \<Rightarrow> string \<Rightarrow> string \<Rightarrow> jsvalue list \<Rightarrow> bool" where
  "regex_holds eng p opts vs = list_ex (regex_value eng p opts) vs"

text \<open>
  \<open>$sort\<close> as an insertion sort under the given order.  The server leaves the order of
  documents with equal keys open; the model keeps them in their incoming order.
\<close>

fun insort_by :: "('a \<Rightarrow> 'a \<Rightarrow> bool) \<Rightarrow> 'a \<Rightarrow> 'a list \<Rightarrow> 'a list" where
  "insort_by le x [] = [x]"
| "insort_by le x (y # ys) = (if le x y then x # y # ys else y # insort_by le x ys)"

definition sort_by :: "('a \<Rightarrow> 'a \<Rightarrow> bool) \<Rightarrow> 'a list \<Rightarrow> 'a list" where
  "sort_by le xs = foldr (insort_by le) xs []"

text \<open>
  One stage on the documents that reach it.  The server rejects the pipeline for an \<open>$or\<close>
  with no entry or a malformed condition (code 2) and for a pattern that does not compile
  (code 51091).
\<close>

fun run_stage :: "'c engine \<Rightarrow> 'c stage \<Rightarrow> mrecord list \<Rightarrow> error + mrecord list" where
  "run_stage eng (Match_record d t del) rs =
     Inr (filter (\<lambda>r. r_databaseId r = d \<and> r_tenantId r = t \<and> r_isDeleted r = del) rs)"
| "run_stage eng (Match_or_regex cs) rs =
     (if cs = [] then Inl (MongoServerError 2)
      else if list_all (\<lambda>(path, p, opts). regex_valid eng p) cs
      then Inr (filter (\<lambda>r. list_ex (\<lambda>(path, p, opts). regex_holds eng p opts (at_path r path))
                               cs) rs)
      else Inl (MongoServerError 51091))"
| "run_stage eng (Match_values cs) rs =
     (if list_all (\<lambda>(path, c). cond_valid eng c) cs
      then Inr (filter (\<lambda>r. list_all (\<lambda>(path, c). cond_holds eng c (at_path r path)) cs) rs)
      else Inl (MongoServerError 2))"
| "run_stage eng (Sort path ord) rs =
     Inr (sort_by (\<lambda>a b. if ord < 0 then bson_le eng (at_path b path) (at_path a path)
                          else bson_le eng (at_path a path) (at_path b path)) rs)"
| "run_stage eng (Skip n) rs = Inr (drop (nat n) rs)"
| "run_stage eng (Limit n) rs = Inr (take (nat n) rs)"

fun aggregate :: "'c engine \<Rightarrow> 'c stage list \<Rightarrow> mrecord list \<Rightarrow> error + mrecord list" where
  "aggregate eng [] rs = Inr rs"
| "aggregate eng (s # ss) rs =
     (case run_stage eng s rs of Inl e \<Rightarrow> Inl e | Inr rs' \<Rightarrow> aggregate eng ss rs')"

section \<open>Collection primitives\<close>

text \<open>
  \<open>findOne\<close> is the first document, in natural order, that satisfies the query.  An
  update, and the \<open>save\<close> of a loaded document (which writes by \<open>_id\<close>), change the first
  document that matches and leave the others alone.
\<close>

definition findOne :: "('a \<Rightarrow> bool) \<Rightarrow> 'a list \<Rightarrow> 'a option" where
  "findOne q xs = find q xs"

fun update_first :: "('a \<Rightarrow> bool) \<Rightarrow> ('a \<Rightarrow> 'a) \<Rightarrow> 'a list \<Rightarrow> 'a list" where
  "update_first q g [] = []"
| "update_first q g (x # xs) = (if q x then g x # xs else x # update_first q g xs)"

definition findById :: "databaseDefinition list \<Rightarrow> oid \<Rightarrow> databaseDefinition option" where
  "findById ds i = findOne (\<lambda>d. d_id d = i) ds"

text \<open>
  The unique index \<open>{tenantId: 1, name: 1}\<close> of DatabaseDefinition: a write is refused
  with code 11000 when a different document has the same tenant and name.
\<close>

definition name_taken :: "databaseDefinition list \<Rightarrow> oid \<Rightarrow> oid \<Rightarrow> string \<Rightarrow> bool" where
  "name_taken ds self t n =
     list_ex (\<lambda>d. d_id d \<noteq> self \<and> d_tenantId d = t \<and> d_name d = n) ds"

text \<open>
  \<open>ActivityLog.create\<close>: appends the entry, stamped with the current time, unless the
  environment makes it reject.
\<close>

definition ActivityLog_create ::
  "env \<Rightarrow> store \<Rightarrow> user \<Rightarrow> action \<Rightarrow> details \<Rightarrow> (error + unit) \<times> store" where
  "ActivityLog_create e st u a dt =
     (case logFail e of
        Some err \<Rightarrow> (Inl err, st)
      | None \<Rightarrow>
          (Inr (),
           st\<lparr>ActivityLogs := ActivityLogs st @
             [\<lparr>l_tenantId = u_tenantId u, l_userId = u_id u, l_action = a,
               l_details = dt, l_createdAt = now e\<rparr>]\<rparr>))"

section \<open>Queries (resolvers.Query)\<close>

definition databases :: "store \<Rightarrow> context \<Rightarrow> error + databaseDefinition list" where
  "databases st ctx =
     (case ctx of
        None \<Rightarrow> Inl (AuthenticationError ''You must be logged in to view databases.'')
      | Some u \<Rightarrow>
          Inr (filter (\<lambda>d. d_tenantId d = u_tenantId u \<and> d_isDeleted d = False)
                 (DatabaseDefinitions st)))"

definition database :: "store \<Rightarrow> context \<Rightarrow> oid \<Rightarrow> error + databaseDefinition" where
  "database st ctx i =
     (case ctx of
        None \<Rightarrow> Inl (AuthenticationError ''You must be logged in to view a database.'')
      | Some u \<Rightarrow>
          (case findOne (\<lambda>d. d_id d = i \<and> d_tenantId d = u_tenantId u \<and> d_isDeleted d = False)
                  (DatabaseDefinitions st) of
             None \<Rightarrow>
               Inl (Error ''Database not found or you don't have permission to view it.'')
           | Some singleDatabase \<Rightarrow> Inr singleDatabase))"

text \<open>
  Pagination.  \<open>page && page > 0 ? page : 1\<close>: an absent, zero or negative page is page 1,
  and likewise for the limit with its default.  The numbers are JavaScript numbers; the
  product stays exact below \<open>2^53\<close>, far beyond the size of a collection.
\<close>

definition pageNum :: "int option \<Rightarrow> int" where
  "pageNum page = (case page of None \<Rightarrow> 1 | Some p \<Rightarrow> if p \<noteq> 0 \<and> p > 0 then p else 1)"

definition limitNum :: "int \<Rightarrow> int option \<Rightarrow> int" where
  "limitNum dflt limit =
     (case limit of None \<Rightarrow> dflt | Some l \<Rightarrow> if l \<noteq> 0 \<and> l > 0 then l else dflt)"

definition skipNum :: "int \<Rightarrow> int option \<Rightarrow> int option \<Rightarrow> int" where
  "skipNum dflt page limit = (pageNum page - 1) * limitNum dflt limit"

text \<open>The \<open>sort\<close> argument: a field name and an order.\<close>

record sort_input =
  s_field :: string
  s_order :: string

definition textFields :: "databaseDefinition \<Rightarrow> string list" where
  "textFields dbDefinition =
     map f_name (filter (\<lambda>f. f_type f = Text) (d_fields dbDefinition))"

text \<open>
  The keyword-search stage.  An absent or empty search term is falsy and adds nothing; the
  definition is looked up by id alone (\<open>findById\<close>).
\<close>

definition search_stages :: "store \<Rightarrow> oid \<Rightarrow> string option \<Rightarrow> 'c stage list" where
  "search_stages st dbId search =
     (case search of
        None \<Rightarrow> []
      | Some s \<Rightarrow>
          if s = [] then []
          else (case findById (DatabaseDefinitions st) dbId of
                  None \<Rightarrow> []
                | Some dbDefinition \<Rightarrow>
                    if length (textFields dbDefinition) > 0
                    then [Match_or_regex
                            (map (\<lambda>fieldName. (''values.'' @ fieldName, s, ''i''))
                               (textFields dbDefinition))]
                    else []))"

text \<open>The user's filter: an object from field name to condition, each put under \<open>values.\<close>\<close>

definition filter_stages :: "(string \<times> 'c) list option \<Rightarrow> 'c stage list" where
  "filter_stages fl =
     (case fl of
        None \<Rightarrow> []
      | Some conds \<Rightarrow>
          [Match_values (map (\<lambda>(fieldName, condition). (''values.'' @ fieldName, condition))
                           conds)])"

definition sort_stages :: "sort_input option \<Rightarrow> 'c stage list" where
  "sort_stages srt =
     (case srt of
        None \<Rightarrow> []
      | Some s \<Rightarrow>
          [Sort (''values.'' @ s_field s)
             (if toLowerCase (s_order s) = ''desc'' then - 1 else 1)])"

text \<open>The stages before pagination, and the whole pipeline.\<close>

definition select_stages ::
  "store \<Rightarrow> user \<Rightarrow> oid \<Rightarrow> (string \<times> 'c) list option \<Rightarrow> sort_input option \<Rightarrow>
   string option \<Rightarrow> 'c stage list" where
  "select_stages st u dbId fl srt search =
     [Match_record dbId (u_tenantId u) False] @ search_stages st dbId search @
     filter_stages fl @ sort_stages srt"

definition pipeline ::
  "store \<Rightarrow> user \<Rightarrow> oid \<Rightarrow> (string \<times> 'c) list option \<Rightarrow> sort_input option \<Rightarrow>
   int option \<Rightarrow> int option \<Rightarrow> string option \<Rightarrow> 'c stage list" where
  "pipeline st u dbId fl srt page limit search =
     select_stages st u dbId fl srt search @
     [Skip (skipNum 20 page limit), Limit (limitNum 20 limit)]"

text \<open>
  The records query.  Each returned document carries its values as the list of its
  \<open>{field, value}\<close> entries, which is how the model holds them already.
\<close>

definition records ::
  "'c engine \<Rightarrow> store \<Rightarrow> context \<Rightarrow> oid \<Rightarrow> (string \<times> 'c) list option \<Rightarrow>
   sort_input option \<Rightarrow> int option \<Rightarrow> int option \<Rightarrow> string option \<Rightarrow>
   error + mrecord list" where
  "records eng st ctx dbId fl srt page limit search =
     (case ctx of
        None \<Rightarrow> Inl (AuthenticationError ''You must be logged in.'')
      | Some u \<Rightarrow> aggregate eng (pipeline st u dbId fl srt page limit search) (Records st))"

text \<open>The record query: null (None) when nothing matches; no filter on \<open>isDeleted\<close>.\<close>

definition record_q :: "store \<Rightarrow> context \<Rightarrow> oid \<Rightarrow> error + mrecord option" where
  "record_q st ctx i =
     (case ctx of
        None \<Rightarrow> Inl (AuthenticationError ''You must be logged in.'')
      | Some u \<Rightarrow>
          Inr (findOne (\<lambda>r. r_id r = i \<and> r_tenantId r = u_tenantId u) (Records st)))"

definition activityLogs :: "store \<Rightarrow> context \<Rightarrow> int option \<Rightarrow> int option \<Rightarrow> error + activityLog list" where
  "activityLogs st ctx limit page =
     (case ctx of
        None \<Rightarrow> Inl (AuthenticationError ''You must be logged in.'')
      | Some u \<Rightarrow>
          Inr (take (nat (limitNum 25 limit))
                 (drop (nat (skipNum 25 page limit))
                    (sort_by (\<lambda>a b. l_createdAt a \<ge> l_createdAt b)
                       (filter (\<lambda>l. l_tenantId l = u_tenantId u) (ActivityLogs st))))))"

section \<open>Mutations (resolvers.Mutation)\<close>

text \<open>
  A mutation returns what the caller gets together with the store it leaves behind, also
  when it throws: a write that happened before the throw stays.  \<open>logged\<close> is the tail
  shared by the mutations: await \<open>ActivityLog.create\<close>, then return the result.
\<close>

definition logged ::
  "env \<Rightarrow> store \<Rightarrow> user \<Rightarrow> action \<Rightarrow> details \<Rightarrow> 'a \<Rightarrow> (error + 'a) \<times> store" where
  "logged e st u a dt res =
     (case ActivityLog_create e st u a dt of
        (Inl err, st') \<Rightarrow> (Inl err, st')
      | (Inr _, st') \<Rightarrow> (Inr res, st'))"

definition blank :: "string \<Rightarrow> bool" where
  "blank name = (name = [] \<or> trim name = [])"

definition createDatabase_catch :: "error \<Rightarrow> error" where
  "createDatabase_catch err =
     (if code err = Some 11000
      then UserInputError ''A database with this name already exists in your tenant.''
      else Error ''An error occurred while creating the database.'')"

text \<open>The schema trims the name (\<open>trim: true\<close>) when it is set.\<close>

definition createDatabase ::
  "env \<Rightarrow> store \<Rightarrow> context \<Rightarrow> string \<Rightarrow> (error + databaseDefinition) \<times> store" where
  "createDatabase e st ctx name =
     (case ctx of
        None \<Rightarrow> (Inl (AuthenticationError ''You must be logged in to create a database.''), st)
      | Some u \<Rightarrow>
          if u_role u \<noteq> Admin
          then (Inl (ForbiddenError
                  ''You are not authorized to perform this action. Admin role required.''), st)
          else if blank name
          then (Inl (UserInputError ''Database name cannot be empty.''), st)
          else
            (let newDatabase =
                   \<lparr>d_id = newId e, d_tenantId = u_tenantId u, d_name = trim name,
                    d_fields = [], d_isDeleted = False, d_createdAt = now e\<rparr>
             in if name_taken (DatabaseDefinitions st) (newId e) (u_tenantId u) (trim name)
                then (Inl (createDatabase_catch (MongoServerError 11000)), st)
                else
                  (case ActivityLog_create e
                          (st\<lparr>DatabaseDefinitions := DatabaseDefinitions st @ [newDatabase]\<rparr>)
                          u CREATE_DATABASE
                          \<lparr>databaseId = Some (d_id newDatabase),
                           databaseName = Some (d_name newDatabase), recordId = None\<rparr> of
                     (Inl err, st') \<Rightarrow> (Inl (createDatabase_catch err), st')
                   | (Inr _, st') \<Rightarrow> (Inr newDatabase, st'))))"

definition updateDatabase_catch :: "error \<Rightarrow> error" where
  "updateDatabase_catch err =
     (if code err = Some 11000
      then UserInputError ''Another database with this name already exists in your tenant.''
      else err)"

definition updateDatabase ::
  "env \<Rightarrow> store \<Rightarrow> context \<Rightarrow> oid \<Rightarrow> string \<Rightarrow> (error + databaseDefinition) \<times> store" where
  "updateDatabase e st ctx i name =
     (case ctx of
        None \<Rightarrow> (Inl (AuthenticationError ''You must be logged in.''), st)
      | Some u \<Rightarrow>
          if u_role u \<noteq> Admin
          then (Inl (ForbiddenError ''You are not authorized to perform this action.''), st)
          else if blank name
          then (Inl (UserInputError ''Database name cannot be empty.''), st)
          else
            (case findOne (\<lambda>d. d_id d = i \<and> d_tenantId d = u_tenantId u)
                    (DatabaseDefinitions st) of
               None \<Rightarrow>
                 (Inl (updateDatabase_catch
                    (Error ''Database not found or you don't have permission to modify it.'')), st)
             | Some d \<Rightarrow>
                 if name_taken (DatabaseDefinitions st) (d_id d) (u_tenantId u) (trim name)
                 then (Inl (updateDatabase_catch (MongoServerError 11000)), st)
                 else
                   (let updatedDatabase = d\<lparr>d_name := trim name\<rparr>
                    in case ActivityLog_create e
                              (st\<lparr>DatabaseDefinitions :=
                                    update_first (\<lambda>d. d_id d = i \<and> d_tenantId d = u_tenantId u)
                                      (\<lambda>d. d\<lparr>d_name := trim name\<rparr>) (DatabaseDefinitions st)\<rparr>)
                              u UPDATE_DATABASE
                              \<lparr>databaseId = Some (d_id updatedDatabase),
                               databaseName = Some (d_name updatedDatabase), recordId = None\<rparr> of
                         (Inl err, st') \<Rightarrow> (Inl (updateDatabase_catch err), st')
                       | (Inr _, st') \<Rightarrow> (Inr updatedDatabase, st'))))"

definition deleteDatabase :: "env \<Rightarrow> store \<Rightarrow> context \<Rightarrow> oid \<Rightarrow> (error + bool) \<times> store" where
  "deleteDatabase e st ctx i =
     (case ctx of
        None \<Rightarrow> (Inl (AuthenticationError ''You must be logged in.''), st)
      | Some u \<Rightarrow>
          if u_role u \<noteq> Admin
          then (Inl (ForbiddenError ''You are not authorized to perform this action.''), st)
          else
            (case findOne (\<lambda>d. d_id d = i \<and> d_tenantId d = u_tenantId u)
                    (DatabaseDefinitions st) of
               None \<Rightarrow>
                 (Inl (Error ''Database not found or you don't have permission to delete it.''), st)
             | Some deletedDatabase \<Rightarrow>
                 logged e
                   (st\<lparr>DatabaseDefinitions :=
                         update_first (\<lambda>d. d_id d = i \<and> d_tenantId d = u_tenantId u)
                           (\<lambda>d. d\<lparr>d_isDeleted := True\<rparr>) (DatabaseDefinitions st)\<rparr>)
                   u DELETE_DATABASE
                   \<lparr>databaseId = Some (d_id deletedDatabase),
                    databaseName = Some (d_name deletedDatabase), recordId = None\<rparr>
                   True))"

text \<open>
  \<open>database.save()\<close> after a change to the field list.  The schema requires a field's
  name, and a required string must be non-empty, so a field name just written is
  validated first; the document is then written back by its \<open>_id\<close>.
\<close>

definition required_name :: "string \<Rightarrow> error option" where
  "required_name n =
     (if n = []
      then Some (ValidationError ''DatabaseDefinition validation failed: name is required'')
      else None)"

definition save_database :: "store \<Rightarrow> databaseDefinition \<Rightarrow> store" where
  "save_database st d =
     st\<lparr>DatabaseDefinitions :=
          update_first (\<lambda>x. d_id x = d_id d) (\<lambda>_. d) (DatabaseDefinitions st)\<rparr>"

text \<open>Pushing the input onto the field array: the sub-document gets a fresh \<open>_id\<close>.\<close>

definition new_field :: "oid \<Rightarrow> field_input \<Rightarrow> field" where
  "new_field i fi =
     \<lparr>f_id = i, f_name = fi_name fi, f_type = fi_type fi,
      f_options = (case fi_options fi of None \<Rightarrow> [] | Some os \<Rightarrow> os),
      f_relation = fi_relation fi\<rparr>"

text \<open>\<open>fieldToUpdate.set(field)\<close>: the attributes given overwrite, the \<open>_id\<close> stays.\<close>

definition set_field :: "field_input \<Rightarrow> field \<Rightarrow> field" where
  "set_field fi f =
     f\<lparr>f_name := fi_name fi, f_type := fi_type fi,
       f_options := (case fi_options fi of None \<Rightarrow> f_options f | Some os \<Rightarrow> os),
       f_relation := (case fi_relation fi of None \<Rightarrow> f_relation f | Some r \<Rightarrow> Some r)\<rparr>"

definition db_details :: "databaseDefinition \<Rightarrow> details" where
  "db_details d = \<lparr>databaseId = Some (d_id d), databaseName = Some (d_name d), recordId = None\<rparr>"

definition createField ::
  "env \<Rightarrow> store \<Rightarrow> context \<Rightarrow> oid \<Rightarrow> field_input \<Rightarrow> (error + databaseDefinition) \<times> store" where
  \<open>createField e st ctx dbId fld =
     (case ctx of
        None \<Rightarrow> (Inl (AuthenticationError ''You must be logged in.''), st)
      | Some u \<Rightarrow>
          if u_role u \<noteq> Admin
          then (Inl (ForbiddenError ''You are not authorized to modify database schemas.''), st)
          else
            (case findOne (\<lambda>d. d_id d = dbId \<and> d_tenantId d = u_tenantId u)
                    (DatabaseDefinitions st) of
               None \<Rightarrow>
                 (Inl (ForbiddenError
                    ''Database not found or you don't have permission to modify it.''), st)
             | Some db \<Rightarrow>
                 if list_ex (\<lambda>f. toLowerCase (f_name f) = toLowerCase (fi_name fld)) (d_fields db)
                 then (Inl (UserInputError
                         (''A field named "'' @ fi_name fld @
                          ''" already exists in this database.'')), st)
                 else
                   (let db' = db\<lparr>d_fields := d_fields db @ [new_field (newId e) fld]\<rparr>
                    in case required_name (fi_name fld) of
                         Some err \<Rightarrow> (Inl err, st)
                       | None \<Rightarrow>
                           logged e (save_database st db') u CREATE_FIELD (db_details db') db')))\<close>

definition updateField ::
  "env \<Rightarrow> store \<Rightarrow> context \<Rightarrow> oid \<Rightarrow> oid \<Rightarrow> field_input \<Rightarrow>
   (error + databaseDefinition) \<times> store" where
  \<open>updateField e st ctx dbId fieldId fld =
     (case ctx of
        None \<Rightarrow> (Inl (AuthenticationError ''You must be logged in.''), st)
      | Some u \<Rightarrow>
          if u_role u \<noteq> Admin
          then (Inl (ForbiddenError ''You are not authorized to modify schemas.''), st)
          else
            (case findOne (\<lambda>d. d_id d = dbId \<and> d_tenantId d = u_tenantId u)
                    (DatabaseDefinitions st) of
               None \<Rightarrow>
                 (Inl (ForbiddenError
                    ''Database not found or you don't have permission to modify it.''), st)
             | Some db \<Rightarrow>
                 (case findOne (\<lambda>f. f_id f = fieldId) (d_fields db) of
                    None \<Rightarrow> (Inl (UserInputError ''Field not found in this database.''), st)
                  | Some fieldToUpdate \<Rightarrow>
                      if list_ex (\<lambda>f. toLowerCase (f_name f) = toLowerCase (fi_name fld) \<and>
                                       f_id f \<noteq> fieldId) (d_fields db)
                      then (Inl (UserInputError
                              (''Another field named "'' @ fi_name fld @
                               ''" already exists in this database.'')), st)
                      else
                        (let db' = db\<lparr>d_fields :=
                                        update_first (\<lambda>f. f_id f = fieldId) (set_field fld)
                                          (d_fields db)\<rparr>
                         in case required_name (fi_name fld) of
                              Some err \<Rightarrow> (Inl err, st)
                            | None \<Rightarrow>
                                logged e (save_database st db') u UPDATE_FIELD
                                  (db_details db') db'))))\<close>

text \<open>Removing the sub-document pulls every element with its \<open>_id\<close> from the array.\<close>

definition deleteField ::
  "env \<Rightarrow> store \<Rightarrow> context \<Rightarrow> oid \<Rightarrow> oid \<Rightarrow> (error + databaseDefinition) \<times> store" where
  "deleteField e st ctx dbId fieldId =
     (case ctx of
        None \<Rightarrow> (Inl (AuthenticationError ''You must be logged in.''), st)
      | Some u \<Rightarrow>
          if u_role u \<noteq> Admin
          then (Inl (ForbiddenError ''You are not authorized to modify schemas.''), st)
          else
            (case findOne (\<lambda>d. d_id d = dbId \<and> d_tenantId d = u_tenantId u)
                    (DatabaseDefinitions st) of
               None \<Rightarrow>
                 (Inl (ForbiddenError
                    ''Database not found or you don't have permission to modify it.''), st)
             | Some db \<Rightarrow>
                 (case findOne (\<lambda>f. f_id f = fieldId) (d_fields db) of
                    None \<Rightarrow> (Inl (UserInputError ''Field not found in this database.''), st)
                  | Some fieldToRemove \<Rightarrow>
                      (let db' = db\<lparr>d_fields := filter (\<lambda>f. f_id f \<noteq> fieldId) (d_fields db)\<rparr>
                       in logged e (save_database st db') u DELETE_FIELD (db_details db') db'))))"

text \<open>
  \<open>Map.set\<close>: an existing key keeps its place and takes the new value, a new key goes
  to the end.
\<close>

fun map_set :: "'k \<Rightarrow> 'v \<Rightarrow> ('k \<times> 'v) list \<Rightarrow> ('k \<times> 'v) list" where
  "map_set k v [] = [(k, v)]"
| "map_set k v (kv # m) = (if fst kv = k then (k, v) # m else kv # map_set k v m)"

text \<open>
  The \<open>values\<close> argument is a JSON object: its own entries in \<open>Object.entries\<close> order.
  Reading \<open>values[name]\<close> finds an own entry first and then goes to \<open>Object.prototype\<close>,
  whose properties every object inherits: its built-in functions, and under \<open>__proto__\<close>
  the prototype itself, an object with no entry to show.  Only a name that is neither
  reads as undefined (None).
\<close>

definition Object_prototype :: "string list" where
  "Object_prototype =
     [''constructor'', ''__defineGetter__'', ''__defineSetter__'', ''hasOwnProperty'',
      ''__lookupGetter__'', ''__lookupSetter__'', ''isPrototypeOf'', ''propertyIsEnumerable'',
      ''toString'', ''valueOf'', ''__proto__'', ''toLocaleString'']"

definition inherited :: "string \<Rightarrow> held option" where
  "inherited name =
     (if name = ''__proto__'' then Some (Json (VObject []))
      else if name \<in> set Object_prototype then Some (Native name)
      else None)"

definition js_get :: "(string \<times> jsvalue) list \<Rightarrow> string \<Rightarrow> held option" where
  "js_get obj name = (case map_of obj name of Some v \<Rightarrow> Some (Json v) | None \<Rightarrow> inherited name)"

text \<open>
  The loop of createRecord runs over the fields of the database, in their order, and
  fills a native Map, which takes any key.
\<close>

definition validatedValues ::
  "field list \<Rightarrow> (string \<times> jsvalue) list \<Rightarrow> (string \<times> held) list" where
  "validatedValues flds vals =
     foldl (\<lambda>m f. case js_get vals (f_name f) of
                     None \<Rightarrow> m
                   | Some providedValue \<Rightarrow> map_set (f_name f) providedValue m)
       [] flds"

text \<open>
  The \<open>values\<close> of a Record are a Mongoose Map, which refuses some keys: \<open>checkValidKey\<close>
  throws for a key that starts with \<open>$\<close>, that contains a dot, or that is a reserved name.
  \<open>check_keys\<close> is the error of the first key refused, if any.
\<close>

definition checkValidKey :: "string \<Rightarrow> error option" where
  \<open>checkValidKey key =
     (if take 1 key = ''$''
      then Some (Error (''Mongoose maps do not support keys that start with "$", got "'' @
                        key @ ''"''))
      else if CHR ''.'' \<in> set key
      then Some (Error (''Mongoose maps do not support keys that contain ".", got "'' @
                        key @ ''"''))
      else if key \<in> set [''__proto__'', ''constructor'', ''prototype'']
      then Some (Error (''Mongoose maps do not support reserved key name "'' @ key @ ''"''))
      else None)\<close>

fun check_keys :: "string list \<Rightarrow> error option" where
  "check_keys [] = None"
| "check_keys (key # keys) =
     (case checkValidKey key of Some err \<Rightarrow> Some err | None \<Rightarrow> check_keys keys)"

text \<open>
  What is written of a Map: the driver serialises JSON values and skips a function.
\<close>

fun toBSON :: "(string \<times> held) list \<Rightarrow> (string \<times> jsvalue) list" where
  "toBSON [] = []"
| "toBSON ((key, Json v) # m) = (key, v) # toBSON m"
| "toBSON ((key, Native f) # m) = toBSON m"

text \<open>
  What createRecord returns: the new document, with the entries of its Map in memory as
  the list of \<open>{field, value}\<close> pairs.  In createRecord the native Map is cast to the Map
  of the schema as the document is built: a key refused there fails the cast of the path
  \<open>values\<close>, and \<open>save\<close> rejects with the validation error of the document, before anything is
  written.  (The text of a validation error is kept to the model and the path here.)
\<close>

record formattedRecord =
  fr_doc :: mrecord
  fr_values :: "(string \<times> held) list"

definition may_edit :: "role \<Rightarrow> bool" where
  "may_edit r = (r \<in> set [Editor, Admin])"

definition createRecord ::
  "env \<Rightarrow> store \<Rightarrow> context \<Rightarrow> oid \<Rightarrow> (string \<times> jsvalue) list \<Rightarrow>
   (error + formattedRecord) \<times> store" where
  "createRecord e st ctx dbId vals =
     (case ctx of
        None \<Rightarrow> (Inl (AuthenticationError ''You must be logged in.''), st)
      | Some u \<Rightarrow>
          if \<not> may_edit (u_role u)
          then (Inl (ForbiddenError ''You are not authorized to create records.''), st)
          else
            (case findOne (\<lambda>d. d_id d = dbId \<and> d_tenantId d = u_tenantId u)
                    (DatabaseDefinitions st) of
               None \<Rightarrow>
                 (Inl (ForbiddenError ''Database not found or you don't have permission.''), st)
             | Some db \<Rightarrow>
                 (case check_keys (map fst (validatedValues (d_fields db) vals)) of
                    Some err \<Rightarrow> (Inl (ValidationError ''Record validation failed: values''), st)
                  | None \<Rightarrow>
                      (let newRecord =
                             \<lparr>r_id = newId e, r_tenantId = u_tenantId u, r_databaseId = dbId,
                              r_values = toBSON (validatedValues (d_fields db) vals),
                              r_isDeleted = False, r_createdAt = now e, r_updatedAt = now e\<rparr>
                       in logged e (st\<lparr>Records := Records st @ [newRecord]\<rparr>) u CREATE_RECORD
                            \<lparr>databaseId = Some dbId, databaseName = None,
                             recordId = Some (r_id newRecord)\<rparr>
                            \<lparr>fr_doc = newRecord,
                             fr_values = validatedValues (d_fields db) vals\<rparr>))))"

text \<open>
  The loop of updateRecord: every entry of the input is set on the record's Map.  The
  first key that the Map refuses throws, before anything is saved.
\<close>

definition merge_values ::
  "(string \<times> jsvalue) list \<Rightarrow> (string \<times> jsvalue) list \<Rightarrow> (string \<times> jsvalue) list" where
  "merge_values old vals = foldl (\<lambda>m (key, v). map_set key v m) old vals"

definition updateRecord ::
  "env \<Rightarrow> store \<Rightarrow> context \<Rightarrow> oid \<Rightarrow> (string \<times> jsvalue) list \<Rightarrow> (error + mrecord) \<times> store" where
  "updateRecord e st ctx i vals =
     (case ctx of
        None \<Rightarrow> (Inl (AuthenticationError ''You must be logged in.''), st)
      | Some u \<Rightarrow>
          if \<not> may_edit (u_role u)
          then (Inl (ForbiddenError ''You are not authorized to edit records.''), st)
          else
            (case findOne (\<lambda>r. r_id r = i \<and> r_tenantId r = u_tenantId u) (Records st) of
               None \<Rightarrow>
                 (Inl (UserInputError ''Record not found or you don't have permission.''), st)
             | Some rec \<Rightarrow>
                 (case check_keys (map fst vals) of
                    Some err \<Rightarrow> (Inl err, st)
                  | None \<Rightarrow>
                      (let rec' = rec\<lparr>r_values := merge_values (r_values rec) vals,
                                      r_updatedAt := now e\<rparr>
                       in logged e
                            (st\<lparr>Records := update_first (\<lambda>x. r_id x = r_id rec') (\<lambda>_. rec')
                                              (Records st)\<rparr>)
                            u UPDATE_RECORD
                            \<lparr>databaseId = None, databaseName = None,
                             recordId = Some (r_id rec')\<rparr>
                            rec'))))"

definition deleteRecord :: "env \<Rightarrow> store \<Rightarrow> context \<Rightarrow> oid \<Rightarrow> (error + bool) \<times> store" where
  "deleteRecord e st ctx i =
     (case ctx of
        None \<Rightarrow> (Inl (AuthenticationError ''You must be logged in.''), st)
      | Some u \<Rightarrow>
          if \<not> may_edit (u_role u)
          then (Inl (ForbiddenError ''You are not authorized to delete records.''), st)
          else
            (case findOne (\<lambda>r. r_id r = i \<and> r_tenantId r = u_tenantId u) (Records st) of
               None \<Rightarrow>
                 (Inl (UserInputError ''Record not found or you don't have permission.''), st)
             | Some result \<Rightarrow>
                 logged e
                   (st\<lparr>Records :=
                         update_first (\<lambda>r. r_id r = i \<and> r_tenantId r = u_tenantId u)
                           (\<lambda>r. r\<lparr>r_isDeleted := True, r_updatedAt := now e\<rparr>) (Records st)\<rparr>)
                   u DELETE_RECORD
                   \<lparr>databaseId = Some (r_databaseId result), databaseName = None,
                    recordId = Some (r_id result)\<rparr>
                   True))"

section \<open>The search term read as a literal\<close>

text \<open>
  For comparison with the engine's regular expressions: \<open>contains_ci t s\<close> says that \<open>t\<close>
  occurs in \<open>s\<close> as a substring, ignoring case.
\<close>

fun contains_ci :: "string \<Rightarrow> string \<Rightarrow> bool" where
  "contains_ci t [] = (t = [])"
| "contains_ci t (c # cs) =
     (toLowerCase (take (length t) (c # cs)) = toLowerCase t \<or> contains_ci t cs)"

section \<open>A sample engine, sample users and a sample store\<close>

text \<open>
  A small engine for the concrete examples.  Its patterns are sequences of ordinary
  characters and \<open>.\<close> (any character but a newline), matched anywhere in the subject, and
  ignoring case under the option \<open>i\<close>, as the server's regular expressions read such a
  pattern.  A pattern with
  any other metacharacter lies outside this fragment and is refused; the examples use one
  such pattern only, \<open>(\<close>, which the server does not compile either.  A condition is a
  literal and holds when the path leads to an equal value; numbers are ordered by their
  value and all other values are ranked alike (\<open>sample_rank\<close>).  The examples use neither filter nor sort.
\<close>

definition metachar :: "char \<Rightarrow> bool" where
  "metachar c = (c \<in> set (CHR 0x5C # ''^$*+?()[]{}|''))"

fun match_here :: "bool \<Rightarrow> string \<Rightarrow> string \<Rightarrow> bool" where
  "match_here ci [] s = True"
| "match_here ci (p # ps) [] = False"
| "match_here ci (p # ps) (c # cs) =
     ((if p = CHR ''.'' then c \<noteq> CHR 0x0A
       else if ci then lower_char p = lower_char c else p = c) \<and>
      match_here ci ps cs)"

fun match_anywhere :: "bool \<Rightarrow> string \<Rightarrow> string \<Rightarrow> bool" where
  "match_anywhere ci p [] = match_here ci p []"
| "match_anywhere ci p (c # cs) = (match_here ci p (c # cs) \<or> match_anywhere ci p cs)"

fun sample_rank :: "jsvalue list \<Rightarrow> int" where
  "sample_rank (VNumber n # vs) = n"
| "sample_rank _ = 0"

definition sample_engine :: "jsvalue engine" where
  "sample_engine =
     \<lparr>regex_valid = (\<lambda>p. \<not> list_ex metachar p),
      regex_match = (\<lambda>p opts s. match_anywhere (CHR ''i'' \<in> set opts) p s),
      cond_valid = (\<lambda>c. True),
      cond_holds = (\<lambda>c vs. c \<in> set vs),
      bson_le = (\<lambda>a b. sample_rank a \<le> sample_rank b)\<rparr>"

definition admin1 :: user where
  "admin1 = \<lparr>u_id = 1, u_tenantId = 1, u_role = Admin\<rparr>"

definition editor1 :: user where
  "editor1 = \<lparr>u_id = 2, u_tenantId = 1, u_role = Editor\<rparr>"

definition viewer1 :: user where
  "viewer1 = \<lparr>u_id = 3, u_tenantId = 1, u_role = Viewer\<rparr>"

definition admin2 :: user where
  "admin2 = \<lparr>u_id = 4, u_tenantId = 2, u_role = Admin\<rparr>"

definition contacts :: databaseDefinition where
  "contacts =
     \<lparr>d_id = 10, d_tenantId = 1, d_name = ''Contacts'',
      d_fields =
        [\<lparr>f_id = 100, f_name = ''Email'', f_type = Text, f_options = [], f_relation = None\<rparr>,
         \<lparr>f_id = 101, f_name = ''Age'', f_type = Number, f_options = [], f_relation = None\<rparr>],
      d_isDeleted = False, d_createdAt = 5\<rparr>"

definition archive :: databaseDefinition where
  "archive =
     \<lparr>d_id = 11, d_tenantId = 1, d_name = ''Archive'', d_fields = [],
      d_isDeleted = True, d_createdAt = 6\<rparr>"

definition deals :: databaseDefinition where
  "deals =
     \<lparr>d_id = 20, d_tenantId = 2, d_name = ''Deals'',
      d_fields =
        [\<lparr>f_id = 200, f_name = ''title'', f_type = Text, f_options = [], f_relation = None\<rparr>],
      d_isDeleted = False, d_createdAt = 7\<rparr>"

definition contact1 :: mrecord where
  "contact1 =
     \<lparr>r_id = 1000, r_tenantId = 1, r_databaseId = 10,
      r_values = [(''Email'', VString ''abc@x.org''), (''Age'', VNumber 30)],
      r_isDeleted = False, r_createdAt = 8, r_updatedAt = 8\<rparr>"

definition deal1 :: mrecord where
  "deal1 =
     \<lparr>r_id = 2000, r_tenantId = 2, r_databaseId = 20,
      r_values = [(''title'', VString ''secret'')],
      r_isDeleted = False, r_createdAt = 9, r_updatedAt = 9\<rparr>"

definition log1 :: activityLog where
  "log1 =
     \<lparr>l_tenantId = 1, l_userId = 1, l_action = CREATE_DATABASE,
      l_details = \<lparr>databaseId = Some 10, databaseName = Some ''Contacts'', recordId = None\<rparr>,
      l_createdAt = 5\<rparr>"

definition log2 :: activityLog where
  "log2 =
     \<lparr>l_tenantId = 2, l_userId = 4, l_action = CREATE_DATABASE,
      l_details = \<lparr>databaseId = Some 20, databaseName = Some ''Deals'', recordId = None\<rparr>,
      l_createdAt = 7\<rparr>"

definition sample_store :: store where
  "sample_store =
     \<lparr>DatabaseDefinitions = [contacts, archive, deals],
      Records = [contact1, deal1],
      ActivityLogs = [log1, log2]\<rparr>"

text \<open>An environment in which the audit log works, and one in which it is down.\<close>

definition env_ok :: env where
  "env_ok = \<lparr>newId = 3000, now = 50, logFail = None\<rparr>"

definition env_down :: env where
  "env_down = \<lparr>newId = 3000, now = 50, logFail = Some (MongoServerError 89)\<rparr>"

text \<open>A store whose database 10 holds twenty-five live records of tenant 1.\<close>

definition numbered :: "nat \<Rightarrow> mrecord" where
  "numbered n =
     \<lparr>r_id = 1000 + n, r_tenantId = 1, r_databaseId = 10,
      r_values = [(''Age'', VNumber (int n))],
      r_isDeleted = False, r_createdAt = 8, r_updatedAt = 8\<rparr>"

definition big_store :: store where
  "big_store = sample_store\<lparr>Records := map numbered [1..<26] @ [deal1]\<rparr>"

text \<open>
  A store with a database that has no text field: database 12 of tenant 1, with one record.
\<close>

definition ledger :: databaseDefinition where
  "ledger =
     \<lparr>d_id = 12, d_tenantId = 1, d_name = ''Ledger'',
      d_fields =
        [\<lparr>f_id = 120, f_name = ''amount'', f_type = Number, f_options = [], f_relation = None\<rparr>],
      d_isDeleted = False, d_createdAt = 10\<rparr>"

definition entry1 :: mrecord where
  "entry1 =
     \<lparr>r_id = 1200, r_tenantId = 1, r_databaseId = 12,
      r_values = [(''amount'', VNumber 5), (''note'', VString ''rent'')],
      r_isDeleted = False, r_createdAt = 11, r_updatedAt = 11\<rparr>"

definition ledger_store :: store where
  "ledger_store =
     sample_store\<lparr>DatabaseDefinitions := [contacts, archive, deals, ledger],
                  Records := [contact1, deal1, entry1]\<rparr>"

text \<open>What of a store belongs to a tenant.\<close>

definition tenant_view :: "oid \<Rightarrow> store \<Rightarrow> store" where
  "tenant_view t st =
     \<lparr>DatabaseDefinitions = filter (\<lambda>d. d_tenantId d = t) (DatabaseDefinitions st),
      Records = filter (\<lambda>r. r_tenantId r = t) (Records st),
      ActivityLogs = filter (\<lambda>l. l_tenantId l = t) (ActivityLogs st)\<rparr>"

text \<open>
  The sample store after tenant 2 has redefined the fields of its database 20: once with a
  text field of another name, once with no text field at all.
\<close>

definition renamed_store :: store where
  "renamed_store =
     sample_store\<lparr>DatabaseDefinitions :=
       [contacts, archive,
        deals\<lparr>d_fields :=
          [\<lparr>f_id = 200, f_name = ''owner'', f_type = Text, f_options = [],
            f_relation = None\<rparr>]\<rparr>]\<rparr>"

definition plain_store :: store where
  "plain_store =
     sample_store\<lparr>DatabaseDefinitions :=
       [contacts, archive,
        deals\<lparr>d_fields :=
          [\<lparr>f_id = 200, f_name = ''title'', f_type = Number, f_options = [],
            f_relation = None\<rparr>]\<rparr>]\<rparr>"

section \<open>Basic facts\<close>

lemma findOne_None_iff: "findOne q xs = None \<longleftrightarrow> (\<forall>x\<in>set xs. \<not> q x)"
  by (auto simp: findOne_def find_None_iff)

lemma findOne_SomeD: "findOne q xs = Some x \<Longrightarrow> x \<in> set xs \<and> q x"
  by (auto simp: findOne_def find_Some_iff)

lemma findOne_ex: "\<exists>x\<in>set xs. q x \<Longrightarrow> \<exists>y. findOne q xs = Some y"
  by (cases "findOne q xs") (auto simp: findOne_None_iff)

lemmas sample_defs =
  sample_store_def admin1_def editor1_def viewer1_def admin2_def contacts_def archive_def
  deals_def contact1_def deal1_def log1_def log2_def env_ok_def env_down_def

lemma blank_Attic: "\<not> blank ''Attic''"
  by (simp add: blank_def trim_def is_space_def)

lemma lower_char_simps:
  "lower_char (CHR ''a'') = CHR ''a''" "lower_char (CHR ''b'') = CHR ''b''"
  "lower_char (CHR ''c'') = CHR ''c''" "lower_char (CHR ''.'') = CHR ''.''"
  "lower_char (CHR ''@'') = CHR ''@''" "lower_char (CHR ''x'') = CHR ''x''"
  "lower_char (CHR ''o'') = CHR ''o''" "lower_char (CHR ''r'') = CHR ''r''"
  "lower_char (CHR ''g'') = CHR ''g''" "lower_char (CHR ''A'') = CHR ''a''"
  "lower_char (CHR ''B'') = CHR ''b''" "lower_char (CHR ''C'') = CHR ''c''"
  "lower_char (CHR ''('') = CHR ''(''"
  by (simp_all add: lower_char_def)

lemmas engine_defs =
  records_def pipeline_def select_stages_def search_stages_def filter_stages_def sort_stages_def
  skipNum_def pageNum_def limitNum_def findById_def findOne_def textFields_def at_path_def
  regex_holds_def sample_engine_def metachar_def

lemma split_dots_not_Nil: "split_dots s \<noteq> []"
  by (induction s) (auto split: list.splits)

lemma split_dots_Cons:
  "c \<noteq> CHR ''.'' \<Longrightarrow> split_dots (c # cs) = (c # hd (split_dots cs)) # tl (split_dots cs)"
  using split_dots_not_Nil [of cs] by (cases "split_dots cs") simp_all

lemma split_dots_values: "split_dots (''values.'' @ n) = ''values'' # split_dots n"
  by (simp add: split_dots_Cons)

lemma split_dots_plain: "CHR ''.'' \<notin> set n \<Longrightarrow> split_dots n = [n]"
  by (induction n) (auto split: list.splits)

text \<open>Under \<open>values\<close>, a field name without a dot leads to the entry of that key.\<close>

lemma at_path_plain:
  "CHR ''.'' \<notin> set n \<Longrightarrow>
   at_path r (''values.'' @ n) = (case map_of (r_values r) n of None \<Rightarrow> [] | Some v \<Rightarrow> [v])"
  by (simp add: at_path_def split_dots_values split_dots_plain split: option.splits)

text \<open>A dotted field name leads into a nested value.\<close>

lemma at_path_dotted:
  "at_path (contact1\<lparr>r_values := [(''a'', VObject [(''b'', VString ''deep'')])]\<rparr>) ''values.a.b'' =
     [VString ''deep'']"
  by (simp add: at_path_def)

section \<open>The single-database lookup\<close>

text \<open>
  The \<open>database\<close> query does not return null for a database that is absent (id 99), owned by
  another tenant (id 20) or soft-deleted (id 11): in each case it throws.
\<close>

theorem database_query_throws_counterexample:
  "database sample_store (Some admin1) 99 =
     Inl (Error ''Database not found or you don't have permission to view it.'') \<and>
   database sample_store (Some admin1) 20 =
     Inl (Error ''Database not found or you don't have permission to view it.'') \<and>
   database sample_store (Some admin1) 11 =
     Inl (Error ''Database not found or you don't have permission to view it.'')"
  by (simp add: database_def findOne_def sample_defs)

text \<open>
  Claim C9, as amended: for an authenticated caller the \<open>database(id)\<close> query throws the plain
  Error "Database not found or you don't have permission to view it." exactly when no
  database with that id is live in the caller's tenant (absent, other-tenant or
  soft-deleted); it never returns null.
\<close>

theorem database_not_found:
  "(database st (Some u) i =
      Inl (Error ''Database not found or you don't have permission to view it.'')) =
   (\<not> (\<exists>d\<in>set (DatabaseDefinitions st).
          d_id d = i \<and> d_tenantId d = u_tenantId u \<and> d_isDeleted d = False))"
  by (auto simp: database_def findOne_None_iff split: option.splits dest: findOne_SomeD)

theorem database_not_found_witness:
  "database sample_store (Some admin1) 11 =
     Inl (Error ''Database not found or you don't have permission to view it.'') \<and>
   database sample_store (Some admin1) 10 = Inr contacts"
  using database_not_found [of sample_store admin1 11]
  by (simp add: database_def findOne_def sample_defs)

section \<open>Renaming a database\<close>

text \<open>
  \<open>updateDatabase\<close> does not exclude a soft-deleted database: the sample database 11 has its
  \<open>isDeleted\<close> flag set, belongs to the caller's tenant, and is renamed.
\<close>

theorem updateDatabase_renames_soft_deleted_counterexample:
  "d_isDeleted archive \<and> d_tenantId archive = u_tenantId admin1 \<and>
   fst (updateDatabase env_ok sample_store (Some admin1) 11 ''Attic'') =
     Inr (archive\<lparr>d_name := ''Attic''\<rparr>)"
  by (simp add: updateDatabase_def findOne_def blank_def trim_def is_space_def name_taken_def
      ActivityLog_create_def Let_def sample_defs)

text \<open>
  Claim C8, as amended: for an Admin and a non-blank name, \<open>updateDatabase(id, name)\<close> throws
  the plain Error "Database not found or you don't have permission to modify it.", and
  leaves the store as it was, when no database with that id is owned by the caller's
  tenant; a database of the caller's tenant with that id is renamed (to the trimmed name)
  whatever its \<open>isDeleted\<close> flag, provided the name is free in the tenant and the audit
  entry can be written.
\<close>

theorem updateDatabase_not_found:
  assumes "u_role u = Admin" and "\<not> blank name"
  shows
    "((\<forall>d\<in>set (DatabaseDefinitions st). \<not> (d_id d = i \<and> d_tenantId d = u_tenantId u)) \<longrightarrow>
        updateDatabase e st (Some u) i name =
          (Inl (Error ''Database not found or you don't have permission to modify it.''), st)) \<and>
     ((\<exists>d\<in>set (DatabaseDefinitions st). d_id d = i \<and> d_tenantId d = u_tenantId u) \<and>
      \<not> name_taken (DatabaseDefinitions st) i (u_tenantId u) (trim name) \<and> logFail e = None \<longrightarrow>
        (\<exists>d\<in>set (DatabaseDefinitions st). d_id d = i \<and> d_tenantId d = u_tenantId u \<and>
           fst (updateDatabase e st (Some u) i name) = Inr (d\<lparr>d_name := trim name\<rparr>) \<and>
           DatabaseDefinitions (snd (updateDatabase e st (Some u) i name)) =
             update_first (\<lambda>d. d_id d = i \<and> d_tenantId d = u_tenantId u)
               (\<lambda>d. d\<lparr>d_name := trim name\<rparr>) (DatabaseDefinitions st)))"
proof (intro conjI impI)
  assume "\<forall>d\<in>set (DatabaseDefinitions st). \<not> (d_id d = i \<and> d_tenantId d = u_tenantId u)"
  then have "findOne (\<lambda>d. d_id d = i \<and> d_tenantId d = u_tenantId u) (DatabaseDefinitions st) = None"
    by (simp add: findOne_None_iff)
  with assms show "updateDatabase e st (Some u) i name =
      (Inl (Error ''Database not found or you don't have permission to modify it.''), st)"
    by (simp add: updateDatabase_def updateDatabase_catch_def)
next
  assume a: "(\<exists>d\<in>set (DatabaseDefinitions st). d_id d = i \<and> d_tenantId d = u_tenantId u) \<and>
      \<not> name_taken (DatabaseDefinitions st) i (u_tenantId u) (trim name) \<and> logFail e = None"
  then obtain d where
    d: "findOne (\<lambda>d. d_id d = i \<and> d_tenantId d = u_tenantId u) (DatabaseDefinitions st) = Some d"
    using findOne_ex [of "DatabaseDefinitions st" "\<lambda>d. d_id d = i \<and> d_tenantId d = u_tenantId u"]
    by blast
  then have m: "d \<in> set (DatabaseDefinitions st)" "d_id d = i" "d_tenantId d = u_tenantId u"
    by (auto dest: findOne_SomeD)
  from assms a d m have
    "fst (updateDatabase e st (Some u) i name) = Inr (d\<lparr>d_name := trim name\<rparr>) \<and>
     DatabaseDefinitions (snd (updateDatabase e st (Some u) i name)) =
       update_first (\<lambda>d. d_id d = i \<and> d_tenantId d = u_tenantId u)
         (\<lambda>d. d\<lparr>d_name := trim name\<rparr>) (DatabaseDefinitions st)"
    by (simp add: updateDatabase_def ActivityLog_create_def)
  with m show "\<exists>d\<in>set (DatabaseDefinitions st). d_id d = i \<and> d_tenantId d = u_tenantId u \<and>
           fst (updateDatabase e st (Some u) i name) = Inr (d\<lparr>d_name := trim name\<rparr>) \<and>
           DatabaseDefinitions (snd (updateDatabase e st (Some u) i name)) =
             update_first (\<lambda>d. d_id d = i \<and> d_tenantId d = u_tenantId u)
               (\<lambda>d. d\<lparr>d_name := trim name\<rparr>) (DatabaseDefinitions st)"
    by blast
qed

theorem updateDatabase_not_found_witness:
  "updateDatabase env_ok sample_store (Some admin1) 20 ''Attic'' =
     (Inl (Error ''Database not found or you don't have permission to modify it.''),
      sample_store) \<and>
   (\<exists>d\<in>set (DatabaseDefinitions sample_store). d_id d = 11 \<and> d_isDeleted d \<and>
      fst (updateDatabase env_ok sample_store (Some admin1) 11 ''Attic'') =
        Inr (d\<lparr>d_name := trim ''Attic''\<rparr>))"
proof -
  have r: "u_role admin1 = Admin"
    by (simp add: admin1_def)
  have "\<forall>d\<in>set (DatabaseDefinitions sample_store).
          \<not> (d_id d = 20 \<and> d_tenantId d = u_tenantId admin1)"
    by (simp add: sample_defs)
  moreover have
    "(\<exists>d\<in>set (DatabaseDefinitions sample_store). d_id d = 11 \<and> d_tenantId d = u_tenantId admin1) \<and>
     \<not> name_taken (DatabaseDefinitions sample_store) 11 (u_tenantId admin1) (trim ''Attic'') \<and>
     logFail env_ok = None"
    by (simp add: sample_defs name_taken_def trim_def is_space_def)
  moreover have "\<forall>d\<in>set (DatabaseDefinitions sample_store). d_id d = 11 \<longrightarrow> d_isDeleted d"
    by (simp add: sample_defs)
  ultimately show ?thesis
    using updateDatabase_not_found [OF r blank_Attic, of sample_store 20 env_ok]
      updateDatabase_not_found [OF r blank_Attic, of sample_store 11 env_ok]
    by blast
qed

section \<open>Roles\<close>


lemma queries_ignore_role:
  "databases st (Some (u\<lparr>u_role := r\<rparr>)) = databases st (Some u)"
  "database st (Some (u\<lparr>u_role := r\<rparr>)) i = database st (Some u) i"
  "records eng st (Some (u\<lparr>u_role := r\<rparr>)) dbId fl srt page limit search =
     records eng st (Some u) dbId fl srt page limit search"
  "record_q st (Some (u\<lparr>u_role := r\<rparr>)) i = record_q st (Some u) i"
  "activityLogs st (Some (u\<lparr>u_role := r\<rparr>)) limit page = activityLogs st (Some u) limit page"
  by (simp_all add: databases_def database_def records_def record_q_def activityLogs_def
      pipeline_def select_stages_def)

lemma run_stage_not_refused:
  "run_stage eng s rs \<noteq> Inl (ForbiddenError m) \<and> run_stage eng s rs \<noteq> Inl (AuthenticationError m)"
  by (cases s) auto

lemma aggregate_not_refused:
  "aggregate eng ss rs \<noteq> Inl (ForbiddenError m) \<and> aggregate eng ss rs \<noteq> Inl (AuthenticationError m)"
proof (induction ss arbitrary: rs)
  case Nil
  show ?case by simp
next
  case (Cons s ss)
  show ?case
    using run_stage_not_refused [of eng s rs m] Cons.IH
    by (cases "run_stage eng s rs") auto
qed

lemma queries_not_refused:
  "databases st (Some u) \<noteq> Inl (ForbiddenError m) \<and> databases st (Some u) \<noteq> Inl (AuthenticationError m)"
  "database st (Some u) i \<noteq> Inl (ForbiddenError m) \<and> database st (Some u) i \<noteq> Inl (AuthenticationError m)"
  "records eng st (Some u) dbId fl srt page limit search \<noteq> Inl (ForbiddenError m) \<and>
   records eng st (Some u) dbId fl srt page limit search \<noteq> Inl (AuthenticationError m)"
  "record_q st (Some u) i \<noteq> Inl (ForbiddenError m) \<and> record_q st (Some u) i \<noteq> Inl (AuthenticationError m)"
  "activityLogs st (Some u) limit page \<noteq> Inl (ForbiddenError m) \<and>
   activityLogs st (Some u) limit page \<noteq> Inl (AuthenticationError m)"
  by (simp_all add: databases_def database_def records_def record_q_def activityLogs_def
      aggregate_not_refused split: option.splits)

lemma schema_mutations_need_Admin:
  assumes "u_role u \<noteq> Admin"
  shows "createDatabase e st (Some u) name =
       (Inl (ForbiddenError ''You are not authorized to perform this action. Admin role required.''), st)"
    and "updateDatabase e st (Some u) i name =
       (Inl (ForbiddenError ''You are not authorized to perform this action.''), st)"
    and "deleteDatabase e st (Some u) i =
       (Inl (ForbiddenError ''You are not authorized to perform this action.''), st)"
    and "createField e st (Some u) i fld =
       (Inl (ForbiddenError ''You are not authorized to modify database schemas.''), st)"
    and "updateField e st (Some u) i fid fld =
       (Inl (ForbiddenError ''You are not authorized to modify schemas.''), st)"
    and "deleteField e st (Some u) i fid =
       (Inl (ForbiddenError ''You are not authorized to modify schemas.''), st)"
  using assms
  by (simp_all add: createDatabase_def updateDatabase_def deleteDatabase_def createField_def
      updateField_def deleteField_def)

lemma record_mutations_Viewer:
  assumes "u_role u = Viewer"
  shows "createRecord e st (Some u) i vals =
       (Inl (ForbiddenError ''You are not authorized to create records.''), st)"
    and "updateRecord e st (Some u) i vals =
       (Inl (ForbiddenError ''You are not authorized to edit records.''), st)"
    and "deleteRecord e st (Some u) i =
       (Inl (ForbiddenError ''You are not authorized to delete records.''), st)"
  using assms
  by (simp_all add: createRecord_def updateRecord_def deleteRecord_def may_edit_def)

lemma record_mutations_Editor:
  assumes "u_role u = Editor"
  shows "createRecord e st (Some u) i vals = createRecord e st (Some (u\<lparr>u_role := Admin\<rparr>)) i vals"
    and "updateRecord e st (Some u) i vals = updateRecord e st (Some (u\<lparr>u_role := Admin\<rparr>)) i vals"
    and "deleteRecord e st (Some u) i = deleteRecord e st (Some (u\<lparr>u_role := Admin\<rparr>)) i"
  using assms
  by (simp_all add: createRecord_def updateRecord_def deleteRecord_def may_edit_def
      logged_def ActivityLog_create_def Let_def split: option.splits)

text \<open>
  With the audit log up, a record mutation of an Editor or Admin on the tenant's own data
  fails in one way only: a key that the Map of the record refuses.
\<close>

lemma record_mutations_succeed:
  assumes "may_edit (u_role u)" and "logFail e = None"
  shows "findOne (\<lambda>d. d_id d = i \<and> d_tenantId d = u_tenantId u) (DatabaseDefinitions st) = Some db \<Longrightarrow>
           (\<exists>r. fst (createRecord e st (Some u) i vals) = Inr r) \<longleftrightarrow>
           check_keys (map fst (validatedValues (d_fields db) vals)) = None"
    and "(\<exists>r\<in>set (Records st). r_id r = j \<and> r_tenantId r = u_tenantId u) \<Longrightarrow>
           (\<exists>r. fst (updateRecord e st (Some u) j vals) = Inr r) \<longleftrightarrow>
           check_keys (map fst vals) = None"
    and "(\<exists>r\<in>set (Records st). r_id r = j \<and> r_tenantId r = u_tenantId u) \<Longrightarrow>
           fst (deleteRecord e st (Some u) j) = Inr True"
proof -
  assume "findOne (\<lambda>d. d_id d = i \<and> d_tenantId d = u_tenantId u) (DatabaseDefinitions st) = Some db"
  with assms show "(\<exists>r. fst (createRecord e st (Some u) i vals) = Inr r) \<longleftrightarrow>
           check_keys (map fst (validatedValues (d_fields db) vals)) = None"
    by (cases "check_keys (map fst (validatedValues (d_fields db) vals))")
      (simp_all add: createRecord_def logged_def ActivityLog_create_def Let_def)
next
  assume "\<exists>r\<in>set (Records st). r_id r = j \<and> r_tenantId r = u_tenantId u"
  then obtain r where "findOne (\<lambda>r. r_id r = j \<and> r_tenantId r = u_tenantId u) (Records st) = Some r"
    using findOne_ex [of "Records st" "\<lambda>r. r_id r = j \<and> r_tenantId r = u_tenantId u"] by blast
  with assms show "(\<exists>r. fst (updateRecord e st (Some u) j vals) = Inr r) \<longleftrightarrow>
           check_keys (map fst vals) = None"
    by (cases "check_keys (map fst vals)")
      (simp_all add: updateRecord_def logged_def ActivityLog_create_def Let_def)
next
  assume "\<exists>r\<in>set (Records st). r_id r = j \<and> r_tenantId r = u_tenantId u"
  then obtain r where "findOne (\<lambda>r. r_id r = j \<and> r_tenantId r = u_tenantId u) (Records st) = Some r"
    using findOne_ex [of "Records st" "\<lambda>r. r_id r = j \<and> r_tenantId r = u_tenantId u"] by blast
  with assms show "fst (deleteRecord e st (Some u) j) = Inr True"
    by (simp add: deleteRecord_def logged_def ActivityLog_create_def Let_def)
qed

text \<open>
  Claim C6: the role matrix.  Every authenticated member of a tenant, a Viewer included, may
  run the five read queries: the answer does not depend on the role and is never a
  refusal.  Every create, update or delete mutation of a Viewer is refused with
  ForbiddenError.  An Editor is refused every database and field mutation in the same way,
  while an Editor's record mutations do exactly what an Admin's do.  With the audit log
  up, they go through on the tenant's own data: \<open>deleteRecord\<close> of a record of the tenant
  returns true, and \<open>createRecord\<close> on a database of the tenant and \<open>updateRecord\<close> of a
  record of the tenant return the record exactly when the Map of the record takes every
  key set on it (for the create, the names of the fields that the input is read under;
  for the update, the keys of the input).
\<close>

theorem role_matrix:
  "\<comment> \<open>queries: any role gets what any other role gets, and is never refused\<close>
   (databases st (Some (u\<lparr>u_role := r\<rparr>)) = databases st (Some u) \<and>
    database st (Some (u\<lparr>u_role := r\<rparr>)) i = database st (Some u) i \<and>
    records eng st (Some (u\<lparr>u_role := r\<rparr>)) i fl srt page limit search =
      records eng st (Some u) i fl srt page limit search \<and>
    record_q st (Some (u\<lparr>u_role := r\<rparr>)) j = record_q st (Some u) j \<and>
    activityLogs st (Some (u\<lparr>u_role := r\<rparr>)) limit page = activityLogs st (Some u) limit page) \<and>
   (databases st (Some u) \<noteq> Inl (ForbiddenError m) \<and>
    databases st (Some u) \<noteq> Inl (AuthenticationError m) \<and>
    database st (Some u) i \<noteq> Inl (ForbiddenError m) \<and>
    database st (Some u) i \<noteq> Inl (AuthenticationError m) \<and>
    records eng st (Some u) i fl srt page limit search \<noteq> Inl (ForbiddenError m) \<and>
    records eng st (Some u) i fl srt page limit search \<noteq> Inl (AuthenticationError m) \<and>
    record_q st (Some u) j \<noteq> Inl (ForbiddenError m) \<and>
    record_q st (Some u) j \<noteq> Inl (AuthenticationError m) \<and>
    activityLogs st (Some u) limit page \<noteq> Inl (ForbiddenError m) \<and>
    activityLogs st (Some u) limit page \<noteq> Inl (AuthenticationError m)) \<and>
   \<comment> \<open>a Viewer or an Editor is refused every database and field mutation\<close>
   (u_role u = Viewer \<or> u_role u = Editor \<longrightarrow>
      createDatabase e st (Some u) name =
        (Inl (ForbiddenError
           ''You are not authorized to perform this action. Admin role required.''), st) \<and>
      updateDatabase e st (Some u) i name =
        (Inl (ForbiddenError ''You are not authorized to perform this action.''), st) \<and>
      deleteDatabase e st (Some u) i =
        (Inl (ForbiddenError ''You are not authorized to perform this action.''), st) \<and>
      createField e st (Some u) i fld =
        (Inl (ForbiddenError ''You are not authorized to modify database schemas.''), st) \<and>
      updateField e st (Some u) i fid fld =
        (Inl (ForbiddenError ''You are not authorized to modify schemas.''), st) \<and>
      deleteField e st (Some u) i fid =
        (Inl (ForbiddenError ''You are not authorized to modify schemas.''), st)) \<and>
   \<comment> \<open>a Viewer is refused every record mutation\<close>
   (u_role u = Viewer \<longrightarrow>
      createRecord e st (Some u) i vals =
        (Inl (ForbiddenError ''You are not authorized to create records.''), st) \<and>
      updateRecord e st (Some u) j vals =
        (Inl (ForbiddenError ''You are not authorized to edit records.''), st) \<and>
      deleteRecord e st (Some u) j =
        (Inl (ForbiddenError ''You are not authorized to delete records.''), st)) \<and>
   \<comment> \<open>an Editor's record mutations do what an Admin's do, and succeed on the tenant's data\<close>
   (u_role u = Editor \<longrightarrow>
      createRecord e st (Some u) i vals = createRecord e st (Some (u\<lparr>u_role := Admin\<rparr>)) i vals \<and>
      updateRecord e st (Some u) j vals = updateRecord e st (Some (u\<lparr>u_role := Admin\<rparr>)) j vals \<and>
      deleteRecord e st (Some u) j = deleteRecord e st (Some (u\<lparr>u_role := Admin\<rparr>)) j \<and>
      (logFail e = None \<and>
       findOne (\<lambda>d. d_id d = i \<and> d_tenantId d = u_tenantId u) (DatabaseDefinitions st) = Some db \<longrightarrow>
         ((\<exists>r. fst (createRecord e st (Some u) i vals) = Inr r) \<longleftrightarrow>
          check_keys (map fst (validatedValues (d_fields db) vals)) = None)) \<and>
      (logFail e = None \<and> (\<exists>r\<in>set (Records st). r_id r = j \<and> r_tenantId r = u_tenantId u) \<longrightarrow>
         ((\<exists>r. fst (updateRecord e st (Some u) j vals) = Inr r) \<longleftrightarrow>
          check_keys (map fst vals) = None) \<and>
         fst (deleteRecord e st (Some u) j) = Inr True))"
proof (intro conjI impI)
  assume "u_role u = Viewer \<or> u_role u = Editor"
  then have na: "u_role u \<noteq> Admin"
    by auto
  show "createDatabase e st (Some u) name =
        (Inl (ForbiddenError
           ''You are not authorized to perform this action. Admin role required.''), st)"
    by (rule schema_mutations_need_Admin [OF na])
  show "updateDatabase e st (Some u) i name =
        (Inl (ForbiddenError ''You are not authorized to perform this action.''), st)"
    by (rule schema_mutations_need_Admin [OF na])
  show "deleteDatabase e st (Some u) i =
        (Inl (ForbiddenError ''You are not authorized to perform this action.''), st)"
    by (rule schema_mutations_need_Admin [OF na])
  show "createField e st (Some u) i fld =
        (Inl (ForbiddenError ''You are not authorized to modify database schemas.''), st)"
    by (rule schema_mutations_need_Admin [OF na])
  show "updateField e st (Some u) i fid fld =
        (Inl (ForbiddenError ''You are not authorized to modify schemas.''), st)"
    by (rule schema_mutations_need_Admin [OF na])
  show "deleteField e st (Some u) i fid =
        (Inl (ForbiddenError ''You are not authorized to modify schemas.''), st)"
    by (rule schema_mutations_need_Admin [OF na])
next
  assume ed: "u_role u = Editor"
  then have me: "may_edit (u_role u)"
    by (simp add: may_edit_def)
  {
    assume "logFail e = None \<and>
       findOne (\<lambda>d. d_id d = i \<and> d_tenantId d = u_tenantId u) (DatabaseDefinitions st) = Some db"
    then show "(\<exists>r. fst (createRecord e st (Some u) i vals) = Inr r) \<longleftrightarrow>
          check_keys (map fst (validatedValues (d_fields db) vals)) = None"
      using record_mutations_succeed(1) [OF me, of e i st db vals] by blast
  }
  {
    assume "logFail e = None \<and> (\<exists>r\<in>set (Records st). r_id r = j \<and> r_tenantId r = u_tenantId u)"
    then show "(\<exists>r. fst (updateRecord e st (Some u) j vals) = Inr r) \<longleftrightarrow>
          check_keys (map fst vals) = None"
      using record_mutations_succeed(2) [OF me, of e st j vals] by blast
  }
  {
    assume "logFail e = None \<and> (\<exists>r\<in>set (Records st). r_id r = j \<and> r_tenantId r = u_tenantId u)"
    then show "fst (deleteRecord e st (Some u) j) = Inr True"
      using record_mutations_succeed(3) [OF me] by blast
  }
qed (simp_all add: queries_ignore_role queries_not_refused record_mutations_Viewer
      record_mutations_Editor [symmetric])

theorem role_matrix_witness:
  \<open>u_role viewer1 = Viewer \<and> u_role editor1 = Editor \<and>
   records sample_engine sample_store (Some viewer1) 10 None None None None None \<noteq>
     Inl (ForbiddenError ''You are not authorized'') \<and>
   createRecord env_ok sample_store (Some viewer1) 10 [(''Email'', VString ''v@x.org'')] =
     (Inl (ForbiddenError ''You are not authorized to create records.''), sample_store) \<and>
   deleteDatabase env_ok sample_store (Some viewer1) 10 =
     (Inl (ForbiddenError ''You are not authorized to perform this action.''), sample_store) \<and>
   createField env_ok sample_store (Some editor1) 10
       \<lparr>fi_name = ''Phone'', fi_type = Text, fi_options = None, fi_relation = None\<rparr> =
     (Inl (ForbiddenError ''You are not authorized to modify database schemas.''), sample_store) \<and>
   (\<exists>r. fst (createRecord env_ok sample_store (Some editor1) 10
              [(''Email'', VString ''v@x.org'')]) = Inr r) \<and>
   (\<exists>r. fst (updateRecord env_ok sample_store (Some editor1) 1000
              [(''Email'', VString ''v@x.org'')]) = Inr r) \<and>
   fst (deleteRecord env_ok sample_store (Some editor1) 1000) = Inr True\<close>
proof -
  have v: "u_role viewer1 = Viewer" and ed: "u_role editor1 = Editor"
    by (simp_all add: sample_defs)
  have x: "logFail env_ok = None \<and>
      (\<exists>r\<in>set (Records sample_store). r_id r = 1000 \<and> r_tenantId r = u_tenantId editor1)"
    by (simp add: sample_defs)
  have d: "logFail env_ok = None \<and>
      findOne (\<lambda>d. d_id d = 10 \<and> d_tenantId d = u_tenantId editor1)
        (DatabaseDefinitions sample_store) = Some contacts"
    by (simp add: findOne_def sample_defs)
  have k: "check_keys (map fst (validatedValues (d_fields contacts)
              [(''Email'', VString ''v@x.org'')])) = None"
    "check_keys (map fst [(''Email'', VString ''v@x.org'')]) = None"
    by (simp_all add: contacts_def validatedValues_def js_get_def inherited_def
        Object_prototype_def checkValidKey_def)
  show ?thesis
    using role_matrix [where st = sample_store and u = viewer1 and i = 10 and j = 1000
          and e = env_ok and eng = sample_engine and fl = None and srt = None and page = None
          and limit = None and search = None and m = "''You are not authorized''"
          and vals = "[(''Email'', VString ''v@x.org'')]" and r = Admin and name = "''x''"
          and fid = 100 and db = contacts
          and fld = "\<lparr>fi_name = ''Phone'', fi_type = Text, fi_options = None, fi_relation = None\<rparr>"]
      role_matrix [where st = sample_store and u = editor1 and i = 10 and j = 1000
          and e = env_ok and eng = sample_engine and fl = None and srt = None and page = None
          and limit = None and search = None and m = "''You are not authorized''"
          and vals = "[(''Email'', VString ''v@x.org'')]" and r = Admin and name = "''x''"
          and fid = 100 and db = contacts
          and fld = "\<lparr>fi_name = ''Phone'', fi_type = Text, fi_options = None, fi_relation = None\<rparr>"]
      v ed x d k
    by blast
qed

section \<open>Field names\<close>

text \<open>
  Ids are unique in a collection, and so are the ids of the sub-documents of an array.
  Where they are, the write to the first document with an id is the write to the one
  document with that id.
\<close>

lemma update_first_map:
  "distinct (map f xs) \<Longrightarrow>
   update_first (\<lambda>x. f x = a) g xs = map (\<lambda>x. if f x = a then g x else x) xs"
proof (induction xs)
  case Nil
  show ?case by simp
next
  case (Cons x xs)
  show ?case
  proof (cases "f x = a")
    case True
    with Cons.prems have "\<forall>y\<in>set xs. f y \<noteq> a"
      by (auto simp: image_iff)
    then have "map (\<lambda>x. if f x = a then g x else x) xs = xs"
      by (simp add: map_idI)
    with True show ?thesis
      by simp
  next
    case False
    with Cons show ?thesis
      by simp
  qed
qed

lemma findOne_replaced:
  assumes "findOne (\<lambda>d. d_id d = i \<and> d_tenantId d = t) xs = Some db"
    and "d_id db' = i" and "d_tenantId db' = t"
  shows "findOne (\<lambda>d. d_id d = i \<and> d_tenantId d = t)
           (map (\<lambda>x. if d_id x = i then db' else x) xs) = Some db'"
  using assms by (induction xs) (auto simp: findOne_def)

lemma map_f_id_set_field:
  "map f_id (map (\<lambda>f. if f_id f = fid then set_field fld f else f) fs) = map f_id fs"
  by (induction fs) (simp_all add: set_field_def)

text \<open>
  Claim C5: field names are unique up to case.  For an Admin and a database of the
  caller's tenant, \<open>createField\<close> throws the conflict (a UserInputError that names the field)
  whenever a field with the same name, compared in lower case, exists; otherwise it
  appends the field, with a fresh id, to the field list of the stored database, so that a
  second \<open>createField\<close> with a name equal to the first in lower case ("Email", then "email")
  throws the conflict.  \<open>updateField\<close> of an existing field throws the conflict whenever a
  field with a different id has the same name in lower case; otherwise it replaces the
  attributes of that field in the stored database, in place: ids and positions stay.
  (Ids are unique; the schema requires a field name, so the name written is not empty.)
\<close>

theorem field_name_uniqueness:
  assumes "u_role u = Admin"
    and "findOne (\<lambda>d. d_id d = i \<and> d_tenantId d = u_tenantId u) (DatabaseDefinitions st) = Some db"
    and "distinct (map d_id (DatabaseDefinitions st))"
  shows
    \<open>((\<exists>f\<in>set (d_fields db). toLowerCase (f_name f) = toLowerCase (fi_name fld)) \<longrightarrow>
        createField e st (Some u) i fld =
          (Inl (UserInputError
             (''A field named "'' @ fi_name fld @ ''" already exists in this database.'')), st)) \<and>
     (\<not> (\<exists>f\<in>set (d_fields db). toLowerCase (f_name f) = toLowerCase (fi_name fld)) \<and>
      fi_name fld \<noteq> [] \<longrightarrow>
        snd (createField e st (Some u) i fld) =
          st\<lparr>DatabaseDefinitions :=
                map (\<lambda>x. if d_id x = i
                          then db\<lparr>d_fields := d_fields db @ [new_field (newId e) fld]\<rparr> else x)
                  (DatabaseDefinitions st),
             ActivityLogs :=
                (if logFail e = None
                 then ActivityLogs st @
                   [\<lparr>l_tenantId = u_tenantId u, l_userId = u_id u, l_action = CREATE_FIELD,
                     l_details = db_details db, l_createdAt = now e\<rparr>]
                 else ActivityLogs st)\<rparr> \<and>
        findOne (\<lambda>d. d_id d = i \<and> d_tenantId d = u_tenantId u)
            (DatabaseDefinitions (snd (createField e st (Some u) i fld))) =
          Some (db\<lparr>d_fields := d_fields db @ [new_field (newId e) fld]\<rparr>) \<and>
        (logFail e = None \<longrightarrow>
           fst (createField e st (Some u) i fld) =
             Inr (db\<lparr>d_fields := d_fields db @ [new_field (newId e) fld]\<rparr>)) \<and>
        (toLowerCase (fi_name fld') = toLowerCase (fi_name fld) \<longrightarrow>
           createField e' (snd (createField e st (Some u) i fld)) (Some u) i fld' =
             (Inl (UserInputError
                (''A field named "'' @ fi_name fld' @ ''" already exists in this database.'')),
              snd (createField e st (Some u) i fld)))) \<and>
     ((\<exists>f\<in>set (d_fields db). f_id f = fid) \<and>
      (\<exists>f\<in>set (d_fields db). toLowerCase (f_name f) = toLowerCase (fi_name fld) \<and> f_id f \<noteq> fid) \<longrightarrow>
        updateField e st (Some u) i fid fld =
          (Inl (UserInputError
             (''Another field named "'' @ fi_name fld @ ''" already exists in this database.'')), st)) \<and>
     ((\<exists>f\<in>set (d_fields db). f_id f = fid) \<and>
      \<not> (\<exists>f\<in>set (d_fields db). toLowerCase (f_name f) = toLowerCase (fi_name fld) \<and> f_id f \<noteq> fid) \<and>
      fi_name fld \<noteq> [] \<and> distinct (map f_id (d_fields db)) \<longrightarrow>
        snd (updateField e st (Some u) i fid fld) =
          st\<lparr>DatabaseDefinitions :=
                map (\<lambda>x. if d_id x = i
                          then db\<lparr>d_fields :=
                                    map (\<lambda>f. if f_id f = fid then set_field fld f else f)
                                      (d_fields db)\<rparr>
                          else x)
                  (DatabaseDefinitions st),
             ActivityLogs :=
                (if logFail e = None
                 then ActivityLogs st @
                   [\<lparr>l_tenantId = u_tenantId u, l_userId = u_id u, l_action = UPDATE_FIELD,
                     l_details = db_details db, l_createdAt = now e\<rparr>]
                 else ActivityLogs st)\<rparr> \<and>
        map f_id (map (\<lambda>f. if f_id f = fid then set_field fld f else f) (d_fields db)) =
          map f_id (d_fields db) \<and>
        (logFail e = None \<longrightarrow>
           fst (updateField e st (Some u) i fid fld) =
             Inr (db\<lparr>d_fields :=
                       map (\<lambda>f. if f_id f = fid then set_field fld f else f) (d_fields db)\<rparr>)))\<close>
proof -
  let ?q = "\<lambda>d. d_id d = i \<and> d_tenantId d = u_tenantId u"
  let ?new = "db\<lparr>d_fields := d_fields db @ [new_field (newId e) fld]\<rparr>"
  let ?st1 = "snd (createField e st (Some u) i fld)"
  from assms(2) have m: "d_id db = i" "d_tenantId db = u_tenantId u"
    by (auto dest: findOne_SomeD)
  have w: "\<And>d'. update_first (\<lambda>x. d_id x = i) (\<lambda>_. d') (DatabaseDefinitions st) =
      map (\<lambda>x. if d_id x = i then d' else x) (DatabaseDefinitions st)"
    by (simp add: update_first_map [OF assms(3)])
  have c1: \<open>createField e st (Some u) i fld =
          (Inl (UserInputError
             (''A field named "'' @ fi_name fld @ ''" already exists in this database.'')), st)\<close>
    if "\<exists>f\<in>set (d_fields db). toLowerCase (f_name f) = toLowerCase (fi_name fld)"
    using that assms(1,2) by (simp add: createField_def list_ex_iff)
  have c2: "?st1 =
          st\<lparr>DatabaseDefinitions :=
                map (\<lambda>x. if d_id x = i then ?new else x) (DatabaseDefinitions st),
             ActivityLogs :=
                (if logFail e = None
                 then ActivityLogs st @
                   [\<lparr>l_tenantId = u_tenantId u, l_userId = u_id u, l_action = CREATE_FIELD,
                     l_details = db_details db, l_createdAt = now e\<rparr>]
                 else ActivityLogs st)\<rparr>"
    if "\<not> (\<exists>f\<in>set (d_fields db). toLowerCase (f_name f) = toLowerCase (fi_name fld)) \<and>
      fi_name fld \<noteq> []"
    using that assms(1,2) m
    by (cases "logFail e")
      (simp_all add: createField_def list_ex_iff required_name_def logged_def
        ActivityLog_create_def Let_def save_database_def db_details_def w)
  have c3: "findOne ?q (DatabaseDefinitions ?st1) = Some ?new"
    if "\<not> (\<exists>f\<in>set (d_fields db). toLowerCase (f_name f) = toLowerCase (fi_name fld)) \<and>
      fi_name fld \<noteq> []"
    using findOne_replaced [OF assms(2), of ?new] m by (simp add: c2 [OF that])
  have c4: "fst (createField e st (Some u) i fld) = Inr ?new"
    if "\<not> (\<exists>f\<in>set (d_fields db). toLowerCase (f_name f) = toLowerCase (fi_name fld)) \<and>
      fi_name fld \<noteq> []" and "logFail e = None"
    using that assms(1,2)
    by (simp add: createField_def list_ex_iff required_name_def logged_def ActivityLog_create_def
        Let_def)
  have c5: \<open>createField e' ?st1 (Some u) i fld' =
             (Inl (UserInputError
                (''A field named "'' @ fi_name fld' @ ''" already exists in this database.'')),
              ?st1)\<close>
    if "\<not> (\<exists>f\<in>set (d_fields db). toLowerCase (f_name f) = toLowerCase (fi_name fld)) \<and>
      fi_name fld \<noteq> []" and "toLowerCase (fi_name fld') = toLowerCase (fi_name fld)"
    using that(2) assms(1) c3 [OF that(1)]
    by (simp add: createField_def list_ex_iff new_field_def)
  have u1: \<open>updateField e st (Some u) i fid fld =
          (Inl (UserInputError
             (''Another field named "'' @ fi_name fld @ ''" already exists in this database.'')), st)\<close>
    if a: "(\<exists>f\<in>set (d_fields db). f_id f = fid) \<and>
      (\<exists>f\<in>set (d_fields db). toLowerCase (f_name f) = toLowerCase (fi_name fld) \<and> f_id f \<noteq> fid)"
  proof -
    from a obtain f where "findOne (\<lambda>f. f_id f = fid) (d_fields db) = Some f"
      using findOne_ex [of "d_fields db" "\<lambda>f. f_id f = fid"] by blast
    with assms(1,2) a show ?thesis
      by (simp add: updateField_def list_ex_iff)
  qed
  have u2: "snd (updateField e st (Some u) i fid fld) =
          st\<lparr>DatabaseDefinitions :=
                map (\<lambda>x. if d_id x = i
                          then db\<lparr>d_fields :=
                                    map (\<lambda>f. if f_id f = fid then set_field fld f else f)
                                      (d_fields db)\<rparr>
                          else x)
                  (DatabaseDefinitions st),
             ActivityLogs :=
                (if logFail e = None
                 then ActivityLogs st @
                   [\<lparr>l_tenantId = u_tenantId u, l_userId = u_id u, l_action = UPDATE_FIELD,
                     l_details = db_details db, l_createdAt = now e\<rparr>]
                 else ActivityLogs st)\<rparr> \<and>
        (logFail e = None \<longrightarrow>
           fst (updateField e st (Some u) i fid fld) =
             Inr (db\<lparr>d_fields :=
                       map (\<lambda>f. if f_id f = fid then set_field fld f else f) (d_fields db)\<rparr>))"
    if a: "(\<exists>f\<in>set (d_fields db). f_id f = fid) \<and>
      \<not> (\<exists>f\<in>set (d_fields db). toLowerCase (f_name f) = toLowerCase (fi_name fld) \<and> f_id f \<noteq> fid) \<and>
      fi_name fld \<noteq> [] \<and> distinct (map f_id (d_fields db))"
  proof -
    from a obtain f where f: "findOne (\<lambda>f. f_id f = fid) (d_fields db) = Some f"
      using findOne_ex [of "d_fields db" "\<lambda>f. f_id f = fid"] by blast
    from a have x: "update_first (\<lambda>f. f_id f = fid) (set_field fld) (d_fields db) =
        map (\<lambda>f. if f_id f = fid then set_field fld f else f) (d_fields db)"
      by (simp add: update_first_map)
    from assms(1,2) a f m show ?thesis
      by (cases "logFail e")
        (auto simp: updateField_def list_ex_iff required_name_def logged_def
          ActivityLog_create_def Let_def save_database_def db_details_def w x)
  qed
  note u2a = u2 [THEN conjunct1] and u2b = u2 [THEN conjunct2, rule_format]
  show ?thesis
    by (intro conjI impI)
      (rule c1 c2 c3 c4 c5 u1 u2a u2b map_f_id_set_field; assumption)+
qed

theorem field_name_uniqueness_witness:
  \<open>createField env_ok sample_store (Some admin1) 10
       \<lparr>fi_name = ''email'', fi_type = Text, fi_options = None, fi_relation = None\<rparr> =
     (Inl (UserInputError ''A field named "email" already exists in this database.''),
      sample_store) \<and>
   DatabaseDefinitions (snd (createField env_ok sample_store (Some admin2) 20
       \<lparr>fi_name = ''Email'', fi_type = Text, fi_options = None, fi_relation = None\<rparr>)) =
     [contacts, archive,
      deals\<lparr>d_fields := d_fields deals @
        [\<lparr>f_id = 3000, f_name = ''Email'', f_type = Text, f_options = [],
          f_relation = None\<rparr>]\<rparr>] \<and>
   createField env_ok
       (snd (createField env_ok sample_store (Some admin2) 20
          \<lparr>fi_name = ''Email'', fi_type = Text, fi_options = None, fi_relation = None\<rparr>))
       (Some admin2) 20
       \<lparr>fi_name = ''email'', fi_type = Text, fi_options = None, fi_relation = None\<rparr> =
     (Inl (UserInputError ''A field named "email" already exists in this database.''),
      snd (createField env_ok sample_store (Some admin2) 20
          \<lparr>fi_name = ''Email'', fi_type = Text, fi_options = None, fi_relation = None\<rparr>)) \<and>
   updateField env_ok sample_store (Some admin1) 10 101
       \<lparr>fi_name = ''EMAIL'', fi_type = Number, fi_options = None, fi_relation = None\<rparr> =
     (Inl (UserInputError ''Another field named "EMAIL" already exists in this database.''),
      sample_store) \<and>
   DatabaseDefinitions (snd (updateField env_ok sample_store (Some admin1) 10 100
       \<lparr>fi_name = ''email'', fi_type = Text, fi_options = None, fi_relation = None\<rparr>)) =
     [contacts\<lparr>d_fields :=
        [\<lparr>f_id = 100, f_name = ''email'', f_type = Text, f_options = [], f_relation = None\<rparr>,
         \<lparr>f_id = 101, f_name = ''Age'', f_type = Number, f_options = [], f_relation = None\<rparr>]\<rparr>,
      archive, deals]\<close>
proof -
  have r: "u_role admin1 = Admin" "u_role admin2 = Admin"
    by (simp_all add: sample_defs)
  have d1: "findOne (\<lambda>d. d_id d = 10 \<and> d_tenantId d = u_tenantId admin1)
             (DatabaseDefinitions sample_store) = Some contacts"
    by (simp add: findOne_def sample_defs)
  have d2: "findOne (\<lambda>d. d_id d = 20 \<and> d_tenantId d = u_tenantId admin2)
             (DatabaseDefinitions sample_store) = Some deals"
    by (simp add: findOne_def sample_defs)
  have i: "distinct (map d_id (DatabaseDefinitions sample_store))"
    by (simp add: sample_defs)
  have l: "toLowerCase ''Email'' = ''email''" "toLowerCase ''email'' = ''email''"
    "toLowerCase ''EMAIL'' = ''email''" "toLowerCase ''Age'' = ''age''"
    "toLowerCase ''title'' = ''title''"
    by (simp_all add: toLowerCase_def lower_char_def)
  have f: "d_fields contacts =
      [\<lparr>f_id = 100, f_name = ''Email'', f_type = Text, f_options = [], f_relation = None\<rparr>,
       \<lparr>f_id = 101, f_name = ''Age'', f_type = Number, f_options = [], f_relation = None\<rparr>]"
    "d_fields deals =
      [\<lparr>f_id = 200, f_name = ''title'', f_type = Text, f_options = [], f_relation = None\<rparr>]"
    by (simp_all add: contacts_def deals_def)
  have s: "DatabaseDefinitions sample_store = [contacts, archive, deals]"
    "d_id contacts = 10" "d_id archive = 11" "d_id deals = 20"
    by (simp_all add: sample_defs)
  have a: \<open>createField env_ok sample_store (Some admin1) 10
       \<lparr>fi_name = ''email'', fi_type = Text, fi_options = None, fi_relation = None\<rparr> =
     (Inl (UserInputError ''A field named "email" already exists in this database.''),
      sample_store)\<close>
    using field_name_uniqueness [OF r(1) d1 i, where
        fld = "\<lparr>fi_name = ''email'', fi_type = Text, fi_options = None, fi_relation = None\<rparr>"
        and e = env_ok and fid = 100 and e' = env_ok and fld' = "\<lparr>fi_name = ''email'', fi_type = Text, fi_options = None, fi_relation = None\<rparr>"]
    by (simp add: l f)
  let ?E = "\<lparr>fi_name = ''Email'', fi_type = Text, fi_options = None, fi_relation = None\<rparr>"
  let ?e = "\<lparr>fi_name = ''email'', fi_type = Text, fi_options = None, fi_relation = None\<rparr>"
  have nd: "\<not> (\<exists>f\<in>set (d_fields deals). toLowerCase (f_name f) = toLowerCase (fi_name ?E)) \<and>
      fi_name ?E \<noteq> []"
    by (simp add: l f)
  have lc: "toLowerCase (fi_name ?e) = toLowerCase (fi_name ?E)"
    by (simp add: l)
  have b1: "snd (createField env_ok sample_store (Some admin2) 20 ?E) =
      sample_store\<lparr>DatabaseDefinitions :=
                map (\<lambda>x. if d_id x = 20
                          then deals\<lparr>d_fields := d_fields deals @ [new_field (newId env_ok) ?E]\<rparr>
                          else x)
                  (DatabaseDefinitions sample_store),
             ActivityLogs :=
                (if logFail env_ok = None
                 then ActivityLogs sample_store @
                   [\<lparr>l_tenantId = u_tenantId admin2, l_userId = u_id admin2,
                     l_action = CREATE_FIELD, l_details = db_details deals,
                     l_createdAt = now env_ok\<rparr>]
                 else ActivityLogs sample_store)\<rparr>"
    and b2: \<open>createField env_ok (snd (createField env_ok sample_store (Some admin2) 20 ?E))
        (Some admin2) 20 ?e =
      (Inl (UserInputError
         (''A field named "'' @ fi_name ?e @ ''" already exists in this database.'')),
       snd (createField env_ok sample_store (Some admin2) 20 ?E))\<close>
    using field_name_uniqueness [OF r(2) d2 i, where fld = ?E and fld' = ?e
        and e = env_ok and e' = env_ok and fid = 200] nd lc
    by blast+
  have b: \<open>DatabaseDefinitions (snd (createField env_ok sample_store (Some admin2) 20 ?E)) =
     [contacts, archive,
      deals\<lparr>d_fields := d_fields deals @
        [\<lparr>f_id = 3000, f_name = ''Email'', f_type = Text, f_options = [],
          f_relation = None\<rparr>]\<rparr>] \<and>
   createField env_ok (snd (createField env_ok sample_store (Some admin2) 20 ?E))
       (Some admin2) 20 ?e =
     (Inl (UserInputError ''A field named "email" already exists in this database.''),
      snd (createField env_ok sample_store (Some admin2) 20 ?E))\<close>
    using b2 unfolding b1 by (simp add: s new_field_def env_ok_def)
  have c: \<open>updateField env_ok sample_store (Some admin1) 10 101
       \<lparr>fi_name = ''EMAIL'', fi_type = Number, fi_options = None, fi_relation = None\<rparr> =
     (Inl (UserInputError ''Another field named "EMAIL" already exists in this database.''),
      sample_store)\<close>
    using field_name_uniqueness [OF r(1) d1 i, where
        fld = "\<lparr>fi_name = ''EMAIL'', fi_type = Number, fi_options = None, fi_relation = None\<rparr>"
        and e = env_ok and fid = 101 and e' = env_ok and fld' = "\<lparr>fi_name = ''email'', fi_type = Text, fi_options = None, fi_relation = None\<rparr>"]
    by (simp add: l f)
  have d: \<open>DatabaseDefinitions (snd (updateField env_ok sample_store (Some admin1) 10 100
       \<lparr>fi_name = ''email'', fi_type = Text, fi_options = None, fi_relation = None\<rparr>)) =
     [contacts\<lparr>d_fields :=
        [\<lparr>f_id = 100, f_name = ''email'', f_type = Text, f_options = [], f_relation = None\<rparr>,
         \<lparr>f_id = 101, f_name = ''Age'', f_type = Number, f_options = [], f_relation = None\<rparr>]\<rparr>,
      archive, deals]\<close>
    using field_name_uniqueness [OF r(1) d1 i, where
        fld = "\<lparr>fi_name = ''email'', fi_type = Text, fi_options = None, fi_relation = None\<rparr>"
        and e = env_ok and fid = 100 and e' = env_ok and fld' = "\<lparr>fi_name = ''email'', fi_type = Text, fi_options = None, fi_relation = None\<rparr>"]
    by (simp add: l f s set_field_def)
  from a b c d show ?thesis
    by simp
qed

section \<open>The values of a record\<close>



lemma keys_map_set: "fst ` set (map_set k v m) = insert k (fst ` set m)"
  by (induction m) auto

lemma distinct_map_set: "distinct (map fst m) \<Longrightarrow> distinct (map fst (map_set k v m))"
  by (induction m) (auto simp: keys_map_set)












lemma distinct_merge_values:
  "distinct (map fst old) \<Longrightarrow> distinct (map fst (merge_values old vals))"
  unfolding merge_values_def
proof (induction vals arbitrary: old)
  case Nil
  then show ?case by simp
next
  case (Cons kv vals)
  then show ?case
    by (cases kv) (simp add: distinct_map_set)
qed




text \<open>
  A field named like an inherited property is read from the prototype when the input has
  no entry for it.  On a database with a field named \<open>constructor\<close>, a create with the
  empty input finds the constructor of objects under that name; the Map refuses the name
  as a key, and the save fails.
\<close>

lemma createRecord_inherited_name:
  \<open>createRecord env_ok
       (sample_store\<lparr>DatabaseDefinitions :=
          [contacts\<lparr>d_fields :=
             [\<lparr>f_id = 100, f_name = ''constructor'', f_type = Text, f_options = [],
               f_relation = None\<rparr>]\<rparr>]\<rparr>)
       (Some editor1) 10 [] =
     (Inl (ValidationError ''Record validation failed: values''),
      sample_store\<lparr>DatabaseDefinitions :=
          [contacts\<lparr>d_fields :=
             [\<lparr>f_id = 100, f_name = ''constructor'', f_type = Text, f_options = [],
               f_relation = None\<rparr>]\<rparr>]\<rparr>)\<close>
  by (simp add: createRecord_def may_edit_def findOne_def sample_defs
      checkValidKey_def validatedValues_def js_get_def inherited_def Object_prototype_def)




section \<open>Pagination\<close>

lemma aggregate_append:
  "aggregate eng (ss @ ts) rs =
     (case aggregate eng ss rs of Inl err \<Rightarrow> Inl err | Inr rs' \<Rightarrow> aggregate eng ts rs')"
  by (induction ss arbitrary: rs) (simp_all split: sum.splits)

lemma records_paginates:
  "records eng st (Some u) i fl srt page limit search =
     (case aggregate eng (select_stages st u i fl srt search) (Records st) of
        Inl err \<Rightarrow> Inl err
      | Inr rs \<Rightarrow>
          Inr (take (nat (limitNum 20 limit))
                 (drop (nat ((pageNum page - 1) * limitNum 20 limit)) rs)))"
  by (simp add: records_def pipeline_def aggregate_append skipNum_def split: sum.splits)

lemma pageNum_cases:
  "pageNum None = 1" "p \<le> 0 \<Longrightarrow> pageNum (Some p) = 1" "0 < p \<Longrightarrow> pageNum (Some p) = p"
  by (simp_all add: pageNum_def)

lemma limitNum_cases:
  "limitNum d None = d" "l \<le> 0 \<Longrightarrow> limitNum d (Some l) = d" "0 < l \<Longrightarrow> limitNum d (Some l) = l"
  by (simp_all add: limitNum_def)

text \<open>
  Claim C3: pagination.  In both the records and the activityLogs query an absent or
  non-positive page is page 1, and an absent or non-positive limit is the default, 20 for
  records and 25 for activity logs.  The pipeline of the records query ends, after the
  sort stage, with a skip of (page - 1) * limit and then a limit; the query returns that
  slice of the selected and sorted records, and activityLogs returns that slice of the
  tenant's entries sorted most recent first.  With 25 selected records and limit 10, page 1
  is the first ten, page 3 the last five, and page 4 the empty list, not an error.
\<close>

theorem pagination:
  "(pageNum None = 1 \<and> (p \<le> 0 \<longrightarrow> pageNum (Some p) = 1) \<and> (0 < p \<longrightarrow> pageNum (Some p) = p)) \<and>
   (limitNum d None = d \<and> (l \<le> 0 \<longrightarrow> limitNum d (Some l) = d) \<and>
    (0 < l \<longrightarrow> limitNum d (Some l) = l)) \<and>
   pipeline st u i fl srt page limit search =
     [Match_record i (u_tenantId u) False] @ search_stages st i search @ filter_stages fl @
     sort_stages srt @
     [Skip ((pageNum page - 1) * limitNum 20 limit), Limit (limitNum 20 limit)] \<and>
   records eng st (Some u) i fl srt page limit search =
     (case aggregate eng (select_stages st u i fl srt search) (Records st) of
        Inl err \<Rightarrow> Inl err
      | Inr rs \<Rightarrow>
          Inr (take (nat (limitNum 20 limit))
                 (drop (nat ((pageNum page - 1) * limitNum 20 limit)) rs))) \<and>
   activityLogs st (Some u) limit page =
     Inr (take (nat (limitNum 25 limit))
            (drop (nat ((pageNum page - 1) * limitNum 25 limit))
               (sort_by (\<lambda>a b. l_createdAt a \<ge> l_createdAt b)
                  (filter (\<lambda>l. l_tenantId l = u_tenantId u) (ActivityLogs st))))) \<and>
   (aggregate eng (select_stages st u i fl srt search) (Records st) = Inr rs \<and> length rs = 25 \<longrightarrow>
      records eng st (Some u) i fl srt (Some 1) (Some 10) search = Inr (take 10 rs) \<and>
      records eng st (Some u) i fl srt (Some 3) (Some 10) search = Inr (drop 20 rs) \<and>
      length (drop 20 rs) = 5 \<and>
      records eng st (Some u) i fl srt (Some 4) (Some 10) search = Inr [])"
proof (intro conjI impI)
  show "pipeline st u i fl srt page limit search =
     [Match_record i (u_tenantId u) False] @ search_stages st i search @ filter_stages fl @
     sort_stages srt @
     [Skip ((pageNum page - 1) * limitNum 20 limit), Limit (limitNum 20 limit)]"
    by (simp add: pipeline_def select_stages_def skipNum_def)
  show "activityLogs st (Some u) limit page =
     Inr (take (nat (limitNum 25 limit))
            (drop (nat ((pageNum page - 1) * limitNum 25 limit))
               (sort_by (\<lambda>a b. l_createdAt a \<ge> l_createdAt b)
                  (filter (\<lambda>l. l_tenantId l = u_tenantId u) (ActivityLogs st)))))"
    by (simp add: activityLogs_def skipNum_def)
next
  assume a: "aggregate eng (select_stages st u i fl srt search) (Records st) = Inr rs \<and> length rs = 25"
  then show "records eng st (Some u) i fl srt (Some 1) (Some 10) search = Inr (take 10 rs)"
    by (simp add: records_paginates pageNum_def limitNum_def)
  from a show "records eng st (Some u) i fl srt (Some 3) (Some 10) search = Inr (drop 20 rs)"
    by (simp add: records_paginates pageNum_def limitNum_def)
  from a show "length (drop 20 rs) = 5"
    by simp
  from a show "records eng st (Some u) i fl srt (Some 4) (Some 10) search = Inr []"
    by (simp add: records_paginates pageNum_def limitNum_def)
qed (simp_all add: pageNum_cases limitNum_cases records_paginates)

lemma big_store_selected:
  "aggregate sample_engine (select_stages big_store viewer1 10 None None None) (Records big_store) =
     Inr (map numbered [1..<26])"
  by code_simp

theorem pagination_witness:
  "records sample_engine big_store (Some viewer1) 10 None None (Some 1) (Some 10) None =
     Inr (map numbered [1..<11]) \<and>
   records sample_engine big_store (Some viewer1) 10 None None (Some 3) (Some 10) None =
     Inr (map numbered [21..<26]) \<and>
   records sample_engine big_store (Some viewer1) 10 None None (Some 4) (Some 10) None = Inr [] \<and>
   records sample_engine big_store (Some viewer1) 10 None None (Some 0) (Some (- 5)) None =
     Inr (map numbered [1..<21])"
proof -
  have a: "aggregate sample_engine (select_stages big_store viewer1 10 None None None)
      (Records big_store) = Inr (map numbered [1..<26]) \<and> length (map numbered [1..<26]) = 25"
    by (simp add: big_store_selected)
  have t: "take 10 (map numbered [1..<26]) = map numbered [1..<11]"
    "drop 20 (map numbered [1..<26]) = map numbered [21..<26]"
    "take 20 (map numbered [1..<26]) = map numbered [1..<21]"
    by (simp_all add: take_map drop_map)
  have z: "pageNum (Some 0) = 1" "limitNum 20 (Some (- 5)) = 20"
    by (simp_all add: pageNum_def limitNum_def)
  show ?thesis
    using a t z
      pagination [where eng = sample_engine and st = big_store and u = viewer1 and i = 10
        and fl = None and srt = None and search = None and rs = "map numbered [1..<26]"
        and page = "Some 0" and limit = "Some (- 5)" and p = 0 and l = "- 5" and d = 20]
    by simp
qed

section \<open>The audit log\<close>

text \<open>
  A failing audit append does escalate.  With the log down, \<open>updateRecord\<close> writes the record
  and then rejects with the log's error, where it returns the record when the log works;
  \<open>createDatabase\<close> saves the database and then rejects with its generic Error.
\<close>

theorem audit_failure_escalates_counterexample:
  "fst (updateRecord env_down sample_store (Some editor1) 1000 [(''Email'', VString ''q'')]) =
     Inl (MongoServerError 89) \<and>
   Records (snd (updateRecord env_down sample_store (Some editor1) 1000 [(''Email'', VString ''q'')])) =
     [contact1\<lparr>r_values := [(''Email'', VString ''q''), (''Age'', VNumber 30)], r_updatedAt := 50\<rparr>,
      deal1] \<and>
   fst (updateRecord env_ok sample_store (Some editor1) 1000 [(''Email'', VString ''q'')]) =
     Inr (contact1\<lparr>r_values := [(''Email'', VString ''q''), (''Age'', VNumber 30)],
                    r_updatedAt := 50\<rparr>) \<and>
   fst (createDatabase env_down sample_store (Some admin1) ''Leads'') =
     Inl (Error ''An error occurred while creating the database.'') \<and>
   DatabaseDefinitions (snd (createDatabase env_down sample_store (Some admin1) ''Leads'')) =
     [contacts, archive, deals,
      \<lparr>d_id = 3000, d_tenantId = 1, d_name = ''Leads'', d_fields = [], d_isDeleted = False,
       d_createdAt = 50\<rparr>]"
  by (simp add: updateRecord_def createDatabase_def createDatabase_catch_def may_edit_def
      findOne_def merge_values_def checkValidKey_def logged_def ActivityLog_create_def
      blank_def trim_def is_space_def name_taken_def Let_def sample_defs)

lemma createDatabase_log_fails:
  assumes "createDatabase (e\<lparr>logFail := None\<rparr>) st ctx name = (Inr res, st')"
  shows "createDatabase (e\<lparr>logFail := Some err\<rparr>) st ctx name =
           (Inl (createDatabase_catch err), st'\<lparr>ActivityLogs := ActivityLogs st\<rparr>)"
  using assms
  by (auto simp: createDatabase_def logged_def ActivityLog_create_def Let_def save_database_def
      split: option.splits if_splits)

lemma updateDatabase_log_fails:
  assumes "updateDatabase (e\<lparr>logFail := None\<rparr>) st ctx i name = (Inr res, st')"
  shows "updateDatabase (e\<lparr>logFail := Some err\<rparr>) st ctx i name =
           (Inl (updateDatabase_catch err), st'\<lparr>ActivityLogs := ActivityLogs st\<rparr>)"
  using assms
  by (auto simp: updateDatabase_def logged_def ActivityLog_create_def Let_def save_database_def
      split: option.splits if_splits)

lemma deleteDatabase_log_fails:
  assumes "deleteDatabase (e\<lparr>logFail := None\<rparr>) st ctx i = (Inr res, st')"
  shows "deleteDatabase (e\<lparr>logFail := Some err\<rparr>) st ctx i =
           (Inl (err), st'\<lparr>ActivityLogs := ActivityLogs st\<rparr>)"
  using assms
  by (auto simp: deleteDatabase_def logged_def ActivityLog_create_def Let_def save_database_def
      split: option.splits if_splits)

lemma createField_log_fails:
  assumes "createField (e\<lparr>logFail := None\<rparr>) st ctx i fld = (Inr res, st')"
  shows "createField (e\<lparr>logFail := Some err\<rparr>) st ctx i fld =
           (Inl (err), st'\<lparr>ActivityLogs := ActivityLogs st\<rparr>)"
  using assms
  by (auto simp: createField_def logged_def ActivityLog_create_def Let_def save_database_def
      split: option.splits if_splits)

lemma updateField_log_fails:
  assumes "updateField (e\<lparr>logFail := None\<rparr>) st ctx i fid fld = (Inr res, st')"
  shows "updateField (e\<lparr>logFail := Some err\<rparr>) st ctx i fid fld =
           (Inl (err), st'\<lparr>ActivityLogs := ActivityLogs st\<rparr>)"
  using assms
  by (auto simp: updateField_def logged_def ActivityLog_create_def Let_def save_database_def
      split: option.splits if_splits)

lemma deleteField_log_fails:
  assumes "deleteField (e\<lparr>logFail := None\<rparr>) st ctx i fid = (Inr res, st')"
  shows "deleteField (e\<lparr>logFail := Some err\<rparr>) st ctx i fid =
           (Inl (err), st'\<lparr>ActivityLogs := ActivityLogs st\<rparr>)"
  using assms
  by (auto simp: deleteField_def logged_def ActivityLog_create_def Let_def save_database_def
      split: option.splits if_splits)

lemma createRecord_log_fails:
  assumes "createRecord (e\<lparr>logFail := None\<rparr>) st ctx i vals = (Inr res, st')"
  shows "createRecord (e\<lparr>logFail := Some err\<rparr>) st ctx i vals =
           (Inl (err), st'\<lparr>ActivityLogs := ActivityLogs st\<rparr>)"
  using assms
  by (auto simp: createRecord_def logged_def ActivityLog_create_def Let_def save_database_def
      split: option.splits if_splits)

lemma updateRecord_log_fails:
  assumes "updateRecord (e\<lparr>logFail := None\<rparr>) st ctx j vals = (Inr res, st')"
  shows "updateRecord (e\<lparr>logFail := Some err\<rparr>) st ctx j vals =
           (Inl (err), st'\<lparr>ActivityLogs := ActivityLogs st\<rparr>)"
  using assms
  by (auto simp: updateRecord_def logged_def ActivityLog_create_def Let_def save_database_def
      split: option.splits if_splits)

lemma deleteRecord_log_fails:
  assumes "deleteRecord (e\<lparr>logFail := None\<rparr>) st ctx j = (Inr res, st')"
  shows "deleteRecord (e\<lparr>logFail := Some err\<rparr>) st ctx j =
           (Inl (err), st'\<lparr>ActivityLogs := ActivityLogs st\<rparr>)"
  using assms
  by (auto simp: deleteRecord_def logged_def ActivityLog_create_def Let_def save_database_def
      split: option.splits if_splits)

text \<open>
  Claim C7, as amended: a failure of the audit append is propagated.  For every mutation
  that succeeds when \<open>ActivityLog.create\<close> works, the same call with \<open>ActivityLog.create\<close>
  rejecting leaves the store with the primary write and without the log entry, and
  rejects: with the error of the append, which \<open>createDatabase\<close> replaces by its own error
  (the generic Error, or the duplicate-name error for code 11000) and \<open>updateDatabase\<close>
  replaces for code 11000.
\<close>

theorem audit_failure_propagates:
  "(createDatabase (e\<lparr>logFail := None\<rparr>) st ctx name = (Inr r1, s1) \<longrightarrow>
      createDatabase (e\<lparr>logFail := Some err\<rparr>) st ctx name =
        (Inl (createDatabase_catch err), s1\<lparr>ActivityLogs := ActivityLogs st\<rparr>)) \<and>
   (updateDatabase (e\<lparr>logFail := None\<rparr>) st ctx i name = (Inr r2, s2) \<longrightarrow>
      updateDatabase (e\<lparr>logFail := Some err\<rparr>) st ctx i name =
        (Inl (updateDatabase_catch err), s2\<lparr>ActivityLogs := ActivityLogs st\<rparr>)) \<and>
   (deleteDatabase (e\<lparr>logFail := None\<rparr>) st ctx i = (Inr r3, s3) \<longrightarrow>
      deleteDatabase (e\<lparr>logFail := Some err\<rparr>) st ctx i =
        (Inl (err), s3\<lparr>ActivityLogs := ActivityLogs st\<rparr>)) \<and>
   (createField (e\<lparr>logFail := None\<rparr>) st ctx i fld = (Inr r4, s4) \<longrightarrow>
      createField (e\<lparr>logFail := Some err\<rparr>) st ctx i fld =
        (Inl (err), s4\<lparr>ActivityLogs := ActivityLogs st\<rparr>)) \<and>
   (updateField (e\<lparr>logFail := None\<rparr>) st ctx i fid fld = (Inr r5, s5) \<longrightarrow>
      updateField (e\<lparr>logFail := Some err\<rparr>) st ctx i fid fld =
        (Inl (err), s5\<lparr>ActivityLogs := ActivityLogs st\<rparr>)) \<and>
   (deleteField (e\<lparr>logFail := None\<rparr>) st ctx i fid = (Inr r6, s6) \<longrightarrow>
      deleteField (e\<lparr>logFail := Some err\<rparr>) st ctx i fid =
        (Inl (err), s6\<lparr>ActivityLogs := ActivityLogs st\<rparr>)) \<and>
   (createRecord (e\<lparr>logFail := None\<rparr>) st ctx i vals = (Inr r7, s7) \<longrightarrow>
      createRecord (e\<lparr>logFail := Some err\<rparr>) st ctx i vals =
        (Inl (err), s7\<lparr>ActivityLogs := ActivityLogs st\<rparr>)) \<and>
   (updateRecord (e\<lparr>logFail := None\<rparr>) st ctx j vals = (Inr r8, s8) \<longrightarrow>
      updateRecord (e\<lparr>logFail := Some err\<rparr>) st ctx j vals =
        (Inl (err), s8\<lparr>ActivityLogs := ActivityLogs st\<rparr>)) \<and>
   (deleteRecord (e\<lparr>logFail := None\<rparr>) st ctx j = (Inr r9, s9) \<longrightarrow>
      deleteRecord (e\<lparr>logFail := Some err\<rparr>) st ctx j =
        (Inl (err), s9\<lparr>ActivityLogs := ActivityLogs st\<rparr>))"
  by (intro conjI impI)
    (erule createDatabase_log_fails updateDatabase_log_fails deleteDatabase_log_fails createField_log_fails updateField_log_fails deleteField_log_fails createRecord_log_fails updateRecord_log_fails deleteRecord_log_fails)+

theorem audit_failure_propagates_witness:
  "updateRecord (env_ok\<lparr>logFail := None\<rparr>) sample_store (Some editor1) 1000
       [(''Email'', VString ''q'')] =
     (Inr (contact1\<lparr>r_values := [(''Email'', VString ''q''), (''Age'', VNumber 30)],
                    r_updatedAt := 50\<rparr>),
      sample_store
        \<lparr>Records :=
           [contact1\<lparr>r_values := [(''Email'', VString ''q''), (''Age'', VNumber 30)],
                     r_updatedAt := 50\<rparr>, deal1],
         ActivityLogs := [log1, log2,
           \<lparr>l_tenantId = 1, l_userId = 2, l_action = UPDATE_RECORD,
            l_details = \<lparr>databaseId = None, databaseName = None, recordId = Some 1000\<rparr>,
            l_createdAt = 50\<rparr>]\<rparr>) \<and>
   updateRecord (env_ok\<lparr>logFail := Some (MongoServerError 89)\<rparr>) sample_store (Some editor1) 1000
       [(''Email'', VString ''q'')] =
     (Inl (MongoServerError 89),
      sample_store
        \<lparr>Records :=
           [contact1\<lparr>r_values := [(''Email'', VString ''q''), (''Age'', VNumber 30)],
                     r_updatedAt := 50\<rparr>, deal1]\<rparr>)"
proof -
  have ok: "updateRecord (env_ok\<lparr>logFail := None\<rparr>) sample_store (Some editor1) 1000
       [(''Email'', VString ''q'')] =
     (Inr (contact1\<lparr>r_values := [(''Email'', VString ''q''), (''Age'', VNumber 30)],
                    r_updatedAt := 50\<rparr>),
      sample_store
        \<lparr>Records :=
           [contact1\<lparr>r_values := [(''Email'', VString ''q''), (''Age'', VNumber 30)],
                     r_updatedAt := 50\<rparr>, deal1],
         ActivityLogs := [log1, log2,
           \<lparr>l_tenantId = 1, l_userId = 2, l_action = UPDATE_RECORD,
            l_details = \<lparr>databaseId = None, databaseName = None, recordId = Some 1000\<rparr>,
            l_createdAt = 50\<rparr>]\<rparr>)"
    by (simp add: updateRecord_def may_edit_def findOne_def merge_values_def checkValidKey_def
        logged_def ActivityLog_create_def Let_def sample_defs)
  have "ActivityLogs sample_store = [log1, log2]"
    by (simp add: sample_store_def)
  with ok show ?thesis
    using audit_failure_propagates [where e = env_ok and st = sample_store
        and ctx = "Some editor1" and j = 1000 and vals = "[(''Email'', VString ''q'')]"
        and err = "MongoServerError 89"]
    by (simp add: sample_store_def)
qed

section \<open>Keyword search\<close>

lemma or_regex_valid:
  "list_all (\<lambda>(path, p, opts). regex_valid eng p) (map (\<lambda>n. (g n, s, opts)) tf) =
   (tf = [] \<or> regex_valid eng s)"
  by (induction tf) auto

lemma or_regex_holds:
  "list_ex (\<lambda>(path, p, opts). regex_holds eng p opts (at_path r path))
     (map (\<lambda>n. (g n, s, opts)) tf) =
   (\<exists>n\<in>set tf. regex_holds eng s opts (at_path r (g n)))"
  by (induction tf) auto

lemma set_textFields:
  "set (textFields d) = {n. \<exists>f\<in>set (d_fields d). f_type f = Text \<and> f_name f = n}"
  by (auto simp: textFields_def)

text \<open>
  What the search stage does, for any engine: with a non-empty term and a definition found
  under the id, one \<open>$or\<close> over the paths of exactly the text fields, each with the term as
  its \<open>$regex\<close> and \<open>i\<close> as its options; no stage when there is no text field.
\<close>

lemma search_stage_semantics:
  assumes "s \<noteq> []" and "findById (DatabaseDefinitions st) i = Some d"
  shows "textFields d = [] \<Longrightarrow> search_stages st i (Some s) = []"
    and "textFields d \<noteq> [] \<Longrightarrow>
           search_stages st i (Some s) =
             [Match_or_regex (map (\<lambda>fieldName. (''values.'' @ fieldName, s, ''i''))
                                (textFields d))]"
    and "textFields d \<noteq> [] \<Longrightarrow>
           run_stage eng
             (Match_or_regex (map (\<lambda>fieldName. (''values.'' @ fieldName, s, ''i''))
                                (textFields d))) rs =
             (if regex_valid eng s
              then Inr (filter (\<lambda>r. \<exists>n\<in>set (textFields d).
                                        regex_holds eng s ''i'' (at_path r (''values.'' @ n))) rs)
              else Inl (MongoServerError 51091))"
  using assms by (simp_all add: search_stages_def or_regex_valid or_regex_holds)

text \<open>
  On a term of ordinary characters the sample engine's match under \<open>i\<close> is the substring
  test that ignores case, so the two readings of a search term part only on
  metacharacters.
\<close>

lemma match_here_literal:
  "CHR ''.'' \<notin> set p \<Longrightarrow>
   match_here True p s = (toLowerCase (take (length p) s) = toLowerCase p)"
proof (induction p arbitrary: s)
  case Nil
  show ?case by (simp add: toLowerCase_def)
next
  case (Cons a p)
  then show ?case
    by (cases s) (auto simp: toLowerCase_def)
qed

lemma sample_engine_literal:
  "CHR ''.'' \<notin> set p \<Longrightarrow> regex_match sample_engine p ''i'' s = contains_ci p s"
proof (induction s)
  case Nil
  then show ?case
    by (cases p) (simp_all add: sample_engine_def)
next
  case (Cons c cs)
  then show ?case
    by (simp add: sample_engine_def match_here_literal)
qed

text \<open>
  The part of the claim on a database with no text field holds: the ledger has a number
  field only, and any search term, on any engine, leaves its records as they are.
\<close>

lemma search_without_text_field:
  "s \<noteq> [] \<Longrightarrow>
   records eng ledger_store (Some admin1) 12 None None None None (Some s) = Inr [entry1]"
  by (simp add: records_def pipeline_def select_stages_def search_stages_def filter_stages_def
      sort_stages_def skipNum_def pageNum_def limitNum_def findById_def findOne_def
      textFields_def ledger_store_def ledger_def entry1_def sample_defs)

text \<open>
  Claim C4: keyword search keeps the records in which a text field contains the search
  term as a substring, ignoring case.  The resolver does not do that for every term: it
  hands the term to the server unescaped, as the \<open>$regex\<close> of each text field's path, so the
  server reads it as a pattern.  In the sample store, whose one contact has the text value
  \<open>abc@x.org\<close>: on any server that compiles \<open>a.c\<close> and finds it in \<open>abc@x.org\<close> under the option
  \<open>i\<close>, the term \<open>a.c\<close> returns the contact, though the value does not contain \<open>a.c\<close>; and on
  any server that does not compile \<open>(\<close>, the term \<open>(\<close> makes the query fail, where a
  substring search would return no record.
\<close>

theorem keyword_term_read_as_pattern:
  "(regex_valid eng ''a.c'' \<and> regex_match eng ''a.c'' ''i'' ''abc@x.org'' \<longrightarrow>
      records eng sample_store (Some admin1) 10 None None None None (Some ''a.c'') =
        Inr [contact1]) \<and>
   (\<not> regex_valid eng ''('' \<longrightarrow>
      records eng sample_store (Some admin1) 10 None None None None (Some ''('') =
        Inl (MongoServerError 51091)) \<and>
   textFields contacts = [''Email''] \<and>
   at_path contact1 ''values.Email'' = [VString ''abc@x.org''] \<and>
   \<not> contains_ci ''a.c'' ''abc@x.org'' \<and> \<not> contains_ci ''('' ''abc@x.org''"
  by (simp add: records_def pipeline_def select_stages_def search_stages_def filter_stages_def
      sort_stages_def skipNum_def pageNum_def limitNum_def findById_def findOne_def
      textFields_def at_path_def regex_holds_def sample_defs lower_char_simps toLowerCase_def)

theorem keyword_term_read_as_pattern_witness:
  "records sample_engine sample_store (Some admin1) 10 None None None None (Some ''a.c'') =
     Inr [contact1] \<and>
   records sample_engine sample_store (Some admin1) 10 None None None None (Some ''('') =
     Inl (MongoServerError 51091)"
proof -
  have "regex_valid sample_engine ''a.c'' \<and> regex_match sample_engine ''a.c'' ''i'' ''abc@x.org''"
    by (simp add: sample_engine_def metachar_def lower_char_simps)
  moreover have "\<not> regex_valid sample_engine ''(''"
    by (simp add: sample_engine_def metachar_def)
  ultimately show ?thesis
    using keyword_term_read_as_pattern [of sample_engine] by blast
qed

section \<open>The lookup behind the search stage\<close>

lemma set_insort_by: "set (insort_by le x xs) = insert x (set xs)"
  by (induction xs) auto

lemma set_sort_by: "set (sort_by le xs) = set xs"
  by (induction xs) (simp_all add: sort_by_def set_insort_by)

lemma run_stage_subset: "run_stage eng s rs = Inr rs' \<Longrightarrow> set rs' \<subseteq> set rs"
  by (cases s) (auto simp: set_sort_by split: if_splits dest: in_set_dropD in_set_takeD)

lemma aggregate_subset: "aggregate eng ss rs = Inr rs' \<Longrightarrow> set rs' \<subseteq> set rs"
proof (induction ss arbitrary: rs)
  case Nil
  then show ?case by simp
next
  case (Cons s ss)
  then obtain rs1 where 1: "run_stage eng s rs = Inr rs1" and 2: "aggregate eng ss rs1 = Inr rs'"
    by (auto split: sum.splits)
  from run_stage_subset [OF 1] Cons.IH [OF 2] show ?case
    by blast
qed

lemma records_base_match:
  assumes "records eng st (Some u) i fl srt page limit search = Inr rs" and "r \<in> set rs"
  shows "r \<in> set (Records st) \<and> r_databaseId r = i \<and> r_tenantId r = u_tenantId u \<and>
         r_isDeleted r = False"
proof -
  from assms(1) have
    "aggregate eng
       (search_stages st i search @ filter_stages fl @ sort_stages srt @
        [Skip (skipNum 20 page limit), Limit (limitNum 20 limit)])
       (filter (\<lambda>r. r_databaseId r = i \<and> r_tenantId r = u_tenantId u \<and> r_isDeleted r = False)
          (Records st)) = Inr rs"
    by (simp add: records_def pipeline_def select_stages_def)
  from aggregate_subset [OF this] assms(2) show ?thesis
    by auto
qed

lemma search_stages_by_id:
  assumes "s \<noteq> []" and "findById (DatabaseDefinitions st) i = Some d" and "textFields d \<noteq> []"
  shows "search_stages st i (Some s) =
           [Match_or_regex (map (\<lambda>fieldName. (''values.'' @ fieldName, s, ''i'')) (textFields d))]"
  using assms by (simp add: search_stages_def)

text \<open>
  Claim C10: the search stage looks the database definition up by id alone.  When the id
  supplied is that of a database of another tenant, the pipeline of the caller's query
  searches the paths named by that tenant's text fields; two stores that hold the same
  data of the caller's tenant, and differ only in the field list of another tenant's
  database, give the caller's query different pipelines.  So the set of searched fields is
  not a function of the caller's tenant data alone.  The base match stands all the same:
  every record the query returns belongs to the caller's tenant.
\<close>

theorem search_lookup_ignores_tenant:
  "(s \<noteq> [] \<and> findById (DatabaseDefinitions st) i = Some d \<and> textFields d \<noteq> [] \<and>
    d_tenantId d \<noteq> u_tenantId u \<longrightarrow>
      pipeline st u i fl srt page limit (Some s) =
        [Match_record i (u_tenantId u) False,
         Match_or_regex (map (\<lambda>fieldName. (''values.'' @ fieldName, s, ''i'')) (textFields d))] @
        filter_stages fl @ sort_stages srt @
        [Skip (skipNum 20 page limit), Limit (limitNum 20 limit)]) \<and>
   (records eng st (Some u) i fl srt page limit search = Inr rs \<longrightarrow>
      (\<forall>r\<in>set rs. r_tenantId r = u_tenantId u)) \<and>
   (tenant_view (u_tenantId admin1) sample_store = tenant_view (u_tenantId admin1) renamed_store \<and>
    (\<forall>d\<in>set (DatabaseDefinitions sample_store) \<union> set (DatabaseDefinitions renamed_store).
       d_id d = 20 \<longrightarrow> d_tenantId d \<noteq> u_tenantId admin1) \<and>
    pipeline sample_store admin1 20 None None None None (Some ''x'') =
      [Match_record 20 1 False, Match_or_regex [(''values.title'', ''x'', ''i'')], Skip 0, Limit 20 :: jsvalue stage] \<and>
    pipeline renamed_store admin1 20 None None None None (Some ''x'') =
      [Match_record 20 1 False, Match_or_regex [(''values.owner'', ''x'', ''i'')], Skip 0, Limit 20 :: jsvalue stage])"
proof (intro conjI impI ballI)
  assume "s \<noteq> [] \<and> findById (DatabaseDefinitions st) i = Some d \<and> textFields d \<noteq> [] \<and>
    d_tenantId d \<noteq> u_tenantId u"
  then show "pipeline st u i fl srt page limit (Some s) =
        [Match_record i (u_tenantId u) False,
         Match_or_regex (map (\<lambda>fieldName. (''values.'' @ fieldName, s, ''i'')) (textFields d))] @
        filter_stages fl @ sort_stages srt @
        [Skip (skipNum 20 page limit), Limit (limitNum 20 limit)]"
    by (simp add: pipeline_def select_stages_def search_stages_by_id)
next
  fix r
  assume "records eng st (Some u) i fl srt page limit search = Inr rs" and "r \<in> set rs"
  then show "r_tenantId r = u_tenantId u"
    using records_base_match by blast
next
  show "tenant_view (u_tenantId admin1) sample_store = tenant_view (u_tenantId admin1) renamed_store"
    by (simp add: tenant_view_def renamed_store_def sample_defs)
next
  fix d
  assume "d \<in> set (DatabaseDefinitions sample_store) \<union> set (DatabaseDefinitions renamed_store)"
    and "d_id d = 20"
  then show "d_tenantId d \<noteq> u_tenantId admin1"
    by (auto simp: renamed_store_def sample_defs)
next
  show "pipeline sample_store admin1 20 None None None None (Some ''x'') =
      [Match_record 20 1 False, Match_or_regex [(''values.title'', ''x'', ''i'')], Skip 0, Limit 20 :: jsvalue stage]"
    by (simp add: engine_defs sample_defs)
next
  show "pipeline renamed_store admin1 20 None None None None (Some ''x'') =
      [Match_record 20 1 False, Match_or_regex [(''values.owner'', ''x'', ''i'')], Skip 0, Limit 20 :: jsvalue stage]"
    by (simp add: engine_defs renamed_store_def sample_defs)
qed

theorem search_lookup_ignores_tenant_witness:
  "pipeline sample_store admin1 20 None None None None (Some ''x'') =
     [Match_record 20 1 False, Match_or_regex [(''values.title'', ''x'', ''i'')], Skip 0, Limit 20 :: jsvalue stage] \<and>
   r_tenantId contact1 = u_tenantId admin1"
proof -
  have h: "''x'' \<noteq> [] \<and> findById (DatabaseDefinitions sample_store) 20 = Some deals \<and>
      textFields deals \<noteq> [] \<and> d_tenantId deals \<noteq> u_tenantId admin1"
    by (simp add: findById_def findOne_def textFields_def sample_defs)
  have q: "records sample_engine sample_store (Some admin1) 10 None None None None None =
      Inr [contact1]"
    by (simp add: engine_defs sample_defs)
  have t: "textFields deals = [''title'']" "u_tenantId admin1 = 1"
    "filter_stages None = ([] :: jsvalue stage list)" "sort_stages None = ([] :: jsvalue stage list)"
    "skipNum 20 None None = 0" "limitNum 20 None = 20"
    by (simp_all add: textFields_def filter_stages_def sort_stages_def skipNum_def pageNum_def
        limitNum_def sample_defs)
  show ?thesis
    using search_lookup_ignores_tenant [where s = "''x''" and st = sample_store and i = 20
        and d = deals and u = admin1 and fl = None and srt = None and page = None and limit = None
        and eng = sample_engine and search = None and rs = "[contact1]"] h
      search_lookup_ignores_tenant [where s = "''x''" and st = sample_store and i = 10
        and d = deals and u = admin1 and fl = None and srt = None and page = None and limit = None
        and eng = sample_engine and search = None and rs = "[contact1]"] q
    by (simp add: t)
qed

text \<open>
  The lookup shows in the answer.  Tenant 1 holds no record of database 20, so with a
  working pattern the query returns the empty list whatever tenant 2 has defined; but
  with a term that is no pattern, such as \<open>(\<close>, the query fails exactly when database 20
  of tenant 2 has a text field.
\<close>

lemma search_lookup_observable:
  "tenant_view 1 sample_store = tenant_view 1 plain_store \<and>
   records sample_engine sample_store (Some admin1) 20 None None None None (Some ''('') =
     Inl (MongoServerError 51091) \<and>
   records sample_engine plain_store (Some admin1) 20 None None None None (Some ''('') = Inr []"
  by (simp add: engine_defs tenant_view_def plain_store_def sample_defs)

section \<open>Tenant isolation\<close>

text \<open>
  An id owned by another tenant does not always give a not-found error.  Record 2000 and
  database 20 belong to tenant 2 and the caller to tenant 1: the record query answers null,
  and the records query answers the empty list.
\<close>

theorem tenant_isolation_counterexample:
  "u_tenantId admin1 = 1 \<and>
   deal1 \<in> set (Records sample_store) \<and> r_id deal1 = 2000 \<and> r_tenantId deal1 = 2 \<and>
   deals \<in> set (DatabaseDefinitions sample_store) \<and> d_id deals = 20 \<and> d_tenantId deals = 2 \<and>
   record_q sample_store (Some admin1) 2000 = Inr None \<and>
   records sample_engine sample_store (Some admin1) 20 None None None None None = Inr []"
  by (simp add: record_q_def engine_defs sample_defs)

lemma set_activityLogs:
  "activityLogs st (Some u) limit page = Inr ls \<Longrightarrow> l \<in> set ls \<Longrightarrow>
   l \<in> set (ActivityLogs st) \<and> l_tenantId l = u_tenantId u"
  by (auto simp: activityLogs_def set_sort_by dest!: in_set_takeD in_set_dropD)

lemma foreign_database_mutations:
  assumes "findOne (\<lambda>d. d_id d = i \<and> d_tenantId d = u_tenantId u) (DatabaseDefinitions st) = None"
  shows "isl (fst (updateDatabase e st (Some u) i name)) \<and> snd (updateDatabase e st (Some u) i name) = st"
    and "isl (fst (deleteDatabase e st (Some u) i)) \<and> snd (deleteDatabase e st (Some u) i) = st"
    and "isl (fst (createField e st (Some u) i fld)) \<and> snd (createField e st (Some u) i fld) = st"
    and "isl (fst (updateField e st (Some u) i fid fld)) \<and> snd (updateField e st (Some u) i fid fld) = st"
    and "isl (fst (deleteField e st (Some u) i fid)) \<and> snd (deleteField e st (Some u) i fid) = st"
    and "isl (fst (createRecord e st (Some u) i vals)) \<and> snd (createRecord e st (Some u) i vals) = st"
  using assms
  by (simp_all add: updateDatabase_def deleteDatabase_def createField_def updateField_def
      deleteField_def createRecord_def)

lemma foreign_record_mutations:
  assumes "findOne (\<lambda>r. r_id r = j \<and> r_tenantId r = u_tenantId u) (Records st) = None"
  shows "isl (fst (updateRecord e st (Some u) j vals)) \<and> snd (updateRecord e st (Some u) j vals) = st"
    and "isl (fst (deleteRecord e st (Some u) j)) \<and> snd (deleteRecord e st (Some u) j) = st"
  using assms
  by (simp_all add: updateRecord_def deleteRecord_def)

text \<open>The only errors of a pipeline are the server's.\<close>

lemma run_stage_error: "run_stage eng s rs = Inl err \<Longrightarrow> \<exists>c. err = MongoServerError c"
  by (cases s) (auto split: if_splits)

lemma aggregate_error: "aggregate eng ss rs = Inl err \<Longrightarrow> \<exists>c. err = MongoServerError c"
proof (induction ss arbitrary: rs)
  case Nil
  then show ?case by simp
next
  case (Cons s ss)
  show ?case
  proof (cases "run_stage eng s rs")
    case (Inl a)
    with Cons.prems have "run_stage eng s rs = Inl err"
      by simp
    then show ?thesis
      by (rule run_stage_error)
  next
    case (Inr rs')
    with Cons.prems have "aggregate eng ss rs' = Inl err"
      by simp
    then show ?thesis
      by (rule Cons.IH)
  qed
qed

text \<open>
  A lookup whose query carries the tenant finds the same in the whole collection and in
  the documents of that tenant.
\<close>

lemma find_filter:
  "\<forall>x\<in>set xs. q x \<longrightarrow> p x \<Longrightarrow> find q (filter p xs) = find q xs"
  by (induction xs) auto

lemma filter_filter_imp:
  "\<forall>x\<in>set xs. q x \<longrightarrow> p x \<Longrightarrow> filter q (filter p xs) = filter q xs"
  by (induction xs) auto

lemma list_ex_filter:
  "\<forall>x\<in>set xs. q x \<longrightarrow> p x \<Longrightarrow> list_ex q (filter p xs) = list_ex q xs"
  by (induction xs) auto

lemma tenant_view_lookups:
  "findOne (\<lambda>d. d_id d = i \<and> d_tenantId d = t) (DatabaseDefinitions (tenant_view t st)) =
     findOne (\<lambda>d. d_id d = i \<and> d_tenantId d = t) (DatabaseDefinitions st)"
  "findOne (\<lambda>d. d_id d = i \<and> d_tenantId d = t \<and> d_isDeleted d = False)
       (DatabaseDefinitions (tenant_view t st)) =
     findOne (\<lambda>d. d_id d = i \<and> d_tenantId d = t \<and> d_isDeleted d = False)
       (DatabaseDefinitions st)"
  "filter (\<lambda>d. d_tenantId d = t \<and> d_isDeleted d = False)
       (DatabaseDefinitions (tenant_view t st)) =
     filter (\<lambda>d. d_tenantId d = t \<and> d_isDeleted d = False) (DatabaseDefinitions st)"
  "name_taken (DatabaseDefinitions (tenant_view t st)) self t n =
     name_taken (DatabaseDefinitions st) self t n"
  "findOne (\<lambda>r. r_id r = j \<and> r_tenantId r = t) (Records (tenant_view t st)) =
     findOne (\<lambda>r. r_id r = j \<and> r_tenantId r = t) (Records st)"
  "filter (\<lambda>r. r_databaseId r = k \<and> r_tenantId r = t \<and> r_isDeleted r = del)
       (Records (tenant_view t st)) =
     filter (\<lambda>r. r_databaseId r = k \<and> r_tenantId r = t \<and> r_isDeleted r = del) (Records st)"
  "filter (\<lambda>l. l_tenantId l = t) (ActivityLogs (tenant_view t st)) =
     filter (\<lambda>l. l_tenantId l = t) (ActivityLogs st)"
  unfolding tenant_view_def findOne_def name_taken_def
  by (simp_all add: find_filter filter_filter_imp list_ex_filter del: filter_filter)

lemma queries_on_tenant_view:
  "database (tenant_view (u_tenantId u) st) (Some u) i = database st (Some u) i"
  "databases (tenant_view (u_tenantId u) st) (Some u) = databases st (Some u)"
  "record_q (tenant_view (u_tenantId u) st) (Some u) j = record_q st (Some u) j"
  "activityLogs (tenant_view (u_tenantId u) st) (Some u) limit page =
     activityLogs st (Some u) limit page"
  by (simp_all only: database_def databases_def record_q_def activityLogs_def option.case
      tenant_view_lookups)

text \<open>
  The records query reads the records of the caller's tenant only.  Of the documents of
  the other tenants, the definitions alone can bear on its answer, through the lookup of
  the search stage: not at all when there is no search term, or when the database id is
  that of no other tenant's database.
\<close>

lemma records_on_own_records:
  "records eng ((tenant_view (u_tenantId u) st)\<lparr>DatabaseDefinitions := DatabaseDefinitions st\<rparr>)
       (Some u) k fl srt page limit search =
     records eng st (Some u) k fl srt page limit search"
proof -
  let ?st = "(tenant_view (u_tenantId u) st)\<lparr>DatabaseDefinitions := DatabaseDefinitions st\<rparr>"
  have 1: "(search_stages ?st k search :: 'c stage list) = search_stages st k search"
    by (cases search) (auto simp: search_stages_def)
  have "Records ?st = Records (tenant_view (u_tenantId u) st)"
    by simp
  then have 2: "filter (\<lambda>r. r_databaseId r = k \<and> r_tenantId r = u_tenantId u \<and>
                         r_isDeleted r = False) (Records ?st) =
      filter (\<lambda>r. r_databaseId r = k \<and> r_tenantId r = u_tenantId u \<and> r_isDeleted r = False)
        (Records st)"
    by (simp only: tenant_view_lookups)
  show ?thesis
    by (simp only: records_def pipeline_def select_stages_def option.case append_Cons append_Nil
        aggregate.simps run_stage.simps sum.case 1 2)
qed

lemma search_stages_on_tenant_view:
  assumes "search = None \<or> search = Some [] \<or>
           (\<forall>d\<in>set (DatabaseDefinitions st). d_id d = k \<longrightarrow> d_tenantId d = t)"
  shows "(search_stages (tenant_view t st) k search :: 'c stage list) = search_stages st k search"
proof -
  consider "search = None \<or> search = Some []"
    | "\<forall>d\<in>set (DatabaseDefinitions st). d_id d = k \<longrightarrow> d_tenantId d = t"
    using assms by blast
  then show ?thesis
  proof cases
    case 1
    then show ?thesis
      by (auto simp: search_stages_def)
  next
    case 2
    then have "findById (DatabaseDefinitions (tenant_view t st)) k =
        findById (DatabaseDefinitions st) k"
      by (simp add: findById_def findOne_def tenant_view_def find_filter)
    then show ?thesis
      by (cases search) (auto simp: search_stages_def)
  qed
qed

lemma records_on_tenant_view:
  assumes "search = None \<or> search = Some [] \<or>
           (\<forall>d\<in>set (DatabaseDefinitions st). d_id d = k \<longrightarrow> d_tenantId d = u_tenantId u)"
  shows "records eng (tenant_view (u_tenantId u) st) (Some u) k fl srt page limit search =
         records eng st (Some u) k fl srt page limit search"
  by (simp only: records_def pipeline_def select_stages_def option.case append_Cons append_Nil
      aggregate.simps run_stage.simps sum.case tenant_view_lookups
      search_stages_on_tenant_view [OF assms])

text \<open>
  What a mutation answers is what it would answer were the documents of the other tenants
  not there.
\<close>

lemma mutations_on_tenant_view:
  "fst (createDatabase e (tenant_view (u_tenantId u) st) (Some u) name) =
     fst (createDatabase e st (Some u) name)"
  "fst (updateDatabase e (tenant_view (u_tenantId u) st) (Some u) i name) =
     fst (updateDatabase e st (Some u) i name)"
  "fst (deleteDatabase e (tenant_view (u_tenantId u) st) (Some u) i) =
     fst (deleteDatabase e st (Some u) i)"
  "fst (createField e (tenant_view (u_tenantId u) st) (Some u) i fld) =
     fst (createField e st (Some u) i fld)"
  "fst (updateField e (tenant_view (u_tenantId u) st) (Some u) i fid fld) =
     fst (updateField e st (Some u) i fid fld)"
  "fst (deleteField e (tenant_view (u_tenantId u) st) (Some u) i fid) =
     fst (deleteField e st (Some u) i fid)"
  "fst (createRecord e (tenant_view (u_tenantId u) st) (Some u) i vals) =
     fst (createRecord e st (Some u) i vals)"
  "fst (updateRecord e (tenant_view (u_tenantId u) st) (Some u) j vals) =
     fst (updateRecord e st (Some u) j vals)"
  "fst (deleteRecord e (tenant_view (u_tenantId u) st) (Some u) j) =
     fst (deleteRecord e st (Some u) j)"
  by (simp_all add: createDatabase_def updateDatabase_def deleteDatabase_def createField_def
      updateField_def deleteField_def createRecord_def updateRecord_def deleteRecord_def
      tenant_view_lookups logged_def ActivityLog_create_def Let_def
      split: option.splits)

text \<open>
  Claim C1, as amended: tenant isolation.  Let the caller be authenticated against one
  tenant, and let \<open>i\<close> and \<open>j\<close> be ids that no database and no record of that tenant has
  (ids of another tenant's documents, for one).
  \<^item> By id: the \<open>database\<close> query on \<open>i\<close> throws its not-found Error, and the \<open>record\<close> query
    on \<open>j\<close> returns null.
  \<^item> Lists: \<open>databases\<close> and \<open>activityLogs\<close> return documents of the store whose tenantId is
    the caller's, and \<open>records\<close>, for any database id and any arguments, either fails with
    an error of the server or returns records of the store whose tenantId is the caller's;
    so none of them returns the documents with the ids \<open>i\<close> and \<open>j\<close>.
  \<^item> Mutations: every mutation given \<open>i\<close> or \<open>j\<close> throws and leaves the store as it was.  A
    caller with the role for the mutation is told: the not-found Error by updateDatabase
    (for a name that is not blank) and deleteDatabase, the ForbiddenError "Database not
    found or you don't have permission ..." by the field mutations and createRecord, the
    UserInputError "Record not found or you don't have permission." by updateRecord and
    deleteRecord.
  \<^item> Lookups, for any ids \<open>a\<close>, \<open>b\<close> and \<open>k\<close>, the caller's own too: \<open>database\<close>, \<open>databases\<close>,
    \<open>record\<close> and \<open>activityLogs\<close> answer, and each of the nine mutations answers, what they
    would answer were the documents of the other tenants not in the store.  \<open>records\<close>
    answers what it would answer were the records and log entries of the other tenants
    not in the store; and were their database definitions not there either, when there is
    no search term, or an empty one, or when the database id \<open>k\<close> is that of no other
    tenant's database.  (The one lookup that is left out, that of the search stage for
    another tenant's database id, is by id alone, as shown above.)
\<close>

theorem tenant_isolation:
  assumes db: "\<forall>d\<in>set (DatabaseDefinitions st). d_id d = i \<longrightarrow> d_tenantId d \<noteq> u_tenantId u"
    and rec: "\<forall>r\<in>set (Records st). r_id r = j \<longrightarrow> r_tenantId r \<noteq> u_tenantId u"
  shows
    "\<comment> \<open>the queries by id\<close>
     database st (Some u) i =
       Inl (Error ''Database not found or you don't have permission to view it.'') \<and>
     record_q st (Some u) j = Inr None \<and>
     \<comment> \<open>the list queries\<close>
     (\<exists>ds. databases st (Some u) = Inr ds \<and>
        (\<forall>d\<in>set ds. d \<in> set (DatabaseDefinitions st) \<and> d_tenantId d = u_tenantId u \<and>
                     d_id d \<noteq> i)) \<and>
     ((\<exists>c. records eng st (Some u) k fl srt page limit search = Inl (MongoServerError c)) \<or>
      (\<exists>rs. records eng st (Some u) k fl srt page limit search = Inr rs \<and>
         (\<forall>r\<in>set rs. r \<in> set (Records st) \<and> r_tenantId r = u_tenantId u \<and> r_id r \<noteq> j))) \<and>
     (\<exists>ls. activityLogs st (Some u) limit page = Inr ls \<and>
        (\<forall>l\<in>set ls. l \<in> set (ActivityLogs st) \<and> l_tenantId l = u_tenantId u)) \<and>
     \<comment> \<open>every mutation given the id throws and leaves the store as it was\<close>
     (isl (fst (updateDatabase e st (Some u) i name)) \<and>
      snd (updateDatabase e st (Some u) i name) = st) \<and>
     (isl (fst (deleteDatabase e st (Some u) i)) \<and> snd (deleteDatabase e st (Some u) i) = st) \<and>
     (isl (fst (createField e st (Some u) i fld)) \<and> snd (createField e st (Some u) i fld) = st) \<and>
     (isl (fst (updateField e st (Some u) i fid fld)) \<and>
      snd (updateField e st (Some u) i fid fld) = st) \<and>
     (isl (fst (deleteField e st (Some u) i fid)) \<and> snd (deleteField e st (Some u) i fid) = st) \<and>
     (isl (fst (createRecord e st (Some u) i vals)) \<and>
      snd (createRecord e st (Some u) i vals) = st) \<and>
     (isl (fst (updateRecord e st (Some u) j vals)) \<and>
      snd (updateRecord e st (Some u) j vals) = st) \<and>
     (isl (fst (deleteRecord e st (Some u) j)) \<and> snd (deleteRecord e st (Some u) j) = st) \<and>
     \<comment> \<open>what a caller with the role for the mutation is told\<close>
     (u_role u = Admin \<longrightarrow>
        (\<not> blank name \<longrightarrow>
           fst (updateDatabase e st (Some u) i name) =
             Inl (Error ''Database not found or you don't have permission to modify it.'')) \<and>
        fst (deleteDatabase e st (Some u) i) =
          Inl (Error ''Database not found or you don't have permission to delete it.'') \<and>
        fst (createField e st (Some u) i fld) =
          Inl (ForbiddenError ''Database not found or you don't have permission to modify it.'') \<and>
        fst (updateField e st (Some u) i fid fld) =
          Inl (ForbiddenError ''Database not found or you don't have permission to modify it.'') \<and>
        fst (deleteField e st (Some u) i fid) =
          Inl (ForbiddenError ''Database not found or you don't have permission to modify it.'')) \<and>
     (may_edit (u_role u) \<longrightarrow>
        fst (createRecord e st (Some u) i vals) =
          Inl (ForbiddenError ''Database not found or you don't have permission.'') \<and>
        fst (updateRecord e st (Some u) j vals) =
          Inl (UserInputError ''Record not found or you don't have permission.'') \<and>
        fst (deleteRecord e st (Some u) j) =
          Inl (UserInputError ''Record not found or you don't have permission.'')) \<and>
     \<comment> \<open>every lookup, for any id, is within the caller's tenant\<close>
     database (tenant_view (u_tenantId u) st) (Some u) a = database st (Some u) a \<and>
     databases (tenant_view (u_tenantId u) st) (Some u) = databases st (Some u) \<and>
     record_q (tenant_view (u_tenantId u) st) (Some u) b = record_q st (Some u) b \<and>
     activityLogs (tenant_view (u_tenantId u) st) (Some u) limit page =
       activityLogs st (Some u) limit page \<and>
     records eng ((tenant_view (u_tenantId u) st)\<lparr>DatabaseDefinitions := DatabaseDefinitions st\<rparr>)
         (Some u) k fl srt page limit search =
       records eng st (Some u) k fl srt page limit search \<and>
     (search = None \<or> search = Some [] \<or>
      (\<forall>d\<in>set (DatabaseDefinitions st). d_id d = k \<longrightarrow> d_tenantId d = u_tenantId u) \<longrightarrow>
        records eng (tenant_view (u_tenantId u) st) (Some u) k fl srt page limit search =
          records eng st (Some u) k fl srt page limit search) \<and>
     fst (createDatabase e (tenant_view (u_tenantId u) st) (Some u) name) =
       fst (createDatabase e st (Some u) name) \<and>
     fst (updateDatabase e (tenant_view (u_tenantId u) st) (Some u) a name) =
       fst (updateDatabase e st (Some u) a name) \<and>
     fst (deleteDatabase e (tenant_view (u_tenantId u) st) (Some u) a) =
       fst (deleteDatabase e st (Some u) a) \<and>
     fst (createField e (tenant_view (u_tenantId u) st) (Some u) a fld) =
       fst (createField e st (Some u) a fld) \<and>
     fst (updateField e (tenant_view (u_tenantId u) st) (Some u) a fid fld) =
       fst (updateField e st (Some u) a fid fld) \<and>
     fst (deleteField e (tenant_view (u_tenantId u) st) (Some u) a fid) =
       fst (deleteField e st (Some u) a fid) \<and>
     fst (createRecord e (tenant_view (u_tenantId u) st) (Some u) a vals) =
       fst (createRecord e st (Some u) a vals) \<and>
     fst (updateRecord e (tenant_view (u_tenantId u) st) (Some u) b vals) =
       fst (updateRecord e st (Some u) b vals) \<and>
     fst (deleteRecord e (tenant_view (u_tenantId u) st) (Some u) b) =
       fst (deleteRecord e st (Some u) b)"
proof -
  from db have f1: "findOne (\<lambda>d. d_id d = i \<and> d_tenantId d = u_tenantId u)
      (DatabaseDefinitions st) = None"
    by (auto simp: findOne_None_iff)
  from db have f1': "findOne (\<lambda>d. d_id d = i \<and> d_tenantId d = u_tenantId u \<and> d_isDeleted d = False)
      (DatabaseDefinitions st) = None"
    by (auto simp: findOne_None_iff)
  from rec have f2: "findOne (\<lambda>r. r_id r = j \<and> r_tenantId r = u_tenantId u) (Records st) = None"
    by (auto simp: findOne_None_iff)
  have q1: "database st (Some u) i =
       Inl (Error ''Database not found or you don't have permission to view it.'')"
    using f1' by (simp add: database_def)
  have q2: "record_q st (Some u) j = Inr None"
    by (simp add: record_q_def f2)
  have l1: "\<exists>ds. databases st (Some u) = Inr ds \<and>
        (\<forall>d\<in>set ds. d \<in> set (DatabaseDefinitions st) \<and> d_tenantId d = u_tenantId u \<and>
                     d_id d \<noteq> i)"
    using db by (auto simp: databases_def)
  have l2: "(\<exists>c. records eng st (Some u) k fl srt page limit search = Inl (MongoServerError c)) \<or>
      (\<exists>rs. records eng st (Some u) k fl srt page limit search = Inr rs \<and>
         (\<forall>r\<in>set rs. r \<in> set (Records st) \<and> r_tenantId r = u_tenantId u \<and> r_id r \<noteq> j))"
  proof (cases "records eng st (Some u) k fl srt page limit search")
    case (Inl err)
    then have "aggregate eng (pipeline st u k fl srt page limit search) (Records st) = Inl err"
      by (simp add: records_def)
    from aggregate_error [OF this] Inl show ?thesis
      by blast
  next
    case (Inr rs)
    have "\<forall>r\<in>set rs. r \<in> set (Records st) \<and> r_tenantId r = u_tenantId u \<and> r_id r \<noteq> j"
      using rec records_base_match [OF Inr] by blast
    with Inr show ?thesis
      by blast
  qed
  have l3: "\<exists>ls. activityLogs st (Some u) limit page = Inr ls \<and>
        (\<forall>l\<in>set ls. l \<in> set (ActivityLogs st) \<and> l_tenantId l = u_tenantId u)"
  proof -
    obtain ls where ls: "activityLogs st (Some u) limit page = Inr ls"
      by (simp add: activityLogs_def)
    with set_activityLogs [OF ls] show ?thesis
      by blast
  qed
  have a: "u_role u = Admin \<longrightarrow>
        (\<not> blank name \<longrightarrow>
           fst (updateDatabase e st (Some u) i name) =
             Inl (Error ''Database not found or you don't have permission to modify it.'')) \<and>
        fst (deleteDatabase e st (Some u) i) =
          Inl (Error ''Database not found or you don't have permission to delete it.'') \<and>
        fst (createField e st (Some u) i fld) =
          Inl (ForbiddenError ''Database not found or you don't have permission to modify it.'') \<and>
        fst (updateField e st (Some u) i fid fld) =
          Inl (ForbiddenError ''Database not found or you don't have permission to modify it.'') \<and>
        fst (deleteField e st (Some u) i fid) =
          Inl (ForbiddenError ''Database not found or you don't have permission to modify it.'')"
    by (simp add: f1 updateDatabase_def updateDatabase_catch_def deleteDatabase_def
        createField_def updateField_def deleteField_def)
  have b: "may_edit (u_role u) \<longrightarrow>
        fst (createRecord e st (Some u) i vals) =
          Inl (ForbiddenError ''Database not found or you don't have permission.'') \<and>
        fst (updateRecord e st (Some u) j vals) =
          Inl (UserInputError ''Record not found or you don't have permission.'') \<and>
        fst (deleteRecord e st (Some u) j) =
          Inl (UserInputError ''Record not found or you don't have permission.'')"
    by (simp add: f1 f2 createRecord_def updateRecord_def deleteRecord_def)
  have r: "search = None \<or> search = Some [] \<or>
      (\<forall>d\<in>set (DatabaseDefinitions st). d_id d = k \<longrightarrow> d_tenantId d = u_tenantId u) \<longrightarrow>
        records eng (tenant_view (u_tenantId u) st) (Some u) k fl srt page limit search =
          records eng st (Some u) k fl srt page limit search"
    using records_on_tenant_view by blast
  show ?thesis
    by (intro conjI q1 q2 l1 l2 l3 a b r foreign_database_mutations [OF f1, THEN conjunct1]
        foreign_database_mutations [OF f1, THEN conjunct2]
        foreign_record_mutations [OF f2, THEN conjunct1]
        foreign_record_mutations [OF f2, THEN conjunct2]
        queries_on_tenant_view records_on_own_records mutations_on_tenant_view)
qed

theorem tenant_isolation_witness:
  "database sample_store (Some admin1) 20 =
     Inl (Error ''Database not found or you don't have permission to view it.'') \<and>
   record_q sample_store (Some admin1) 2000 = Inr None \<and>
   updateDatabase env_ok sample_store (Some admin1) 20 ''Attic'' =
     (Inl (Error ''Database not found or you don't have permission to modify it.''),
      sample_store) \<and>
   createRecord env_ok sample_store (Some admin1) 20 [(''title'', VString ''mine'')] =
     (Inl (ForbiddenError ''Database not found or you don't have permission.''), sample_store) \<and>
   deleteRecord env_ok sample_store (Some admin1) 2000 =
     (Inl (UserInputError ''Record not found or you don't have permission.''), sample_store) \<and>
   database (tenant_view 1 sample_store) (Some admin1) 10 =
     database sample_store (Some admin1) 10 \<and>
   records sample_engine (tenant_view 1 sample_store) (Some admin1) 10 None None None None
       (Some ''abc'') =
     records sample_engine sample_store (Some admin1) 10 None None None None (Some ''abc'') \<and>
   fst (updateRecord env_ok (tenant_view 1 sample_store) (Some admin1) 1000
          [(''title'', VString ''mine'')]) =
     fst (updateRecord env_ok sample_store (Some admin1) 1000 [(''title'', VString ''mine'')])"
proof -
  have db: "\<forall>d\<in>set (DatabaseDefinitions sample_store). d_id d = 20 \<longrightarrow>
      d_tenantId d \<noteq> u_tenantId admin1"
    by (simp add: sample_defs)
  have rec: "\<forall>r\<in>set (Records sample_store). r_id r = 2000 \<longrightarrow> r_tenantId r \<noteq> u_tenantId admin1"
    by (simp add: sample_defs)
  have r: "u_role admin1 = Admin" "may_edit (u_role admin1)"
    by (simp_all add: may_edit_def sample_defs)
  have t: "u_tenantId admin1 = 1"
    by (simp add: admin1_def)
  have h: "\<forall>d\<in>set (DatabaseDefinitions sample_store). d_id d = 10 \<longrightarrow>
      d_tenantId d = u_tenantId admin1"
    by (simp add: sample_defs)
  note i = tenant_isolation [OF db rec, where e = env_ok and name = "''Attic''"
        and vals = "[(''title'', VString ''mine'')]" and eng = sample_engine
        and k = 10 and fl = None and srt = None and page = None and limit = None
        and search = "Some ''abc''" and fid = 200 and a = 10 and b = 1000
        and fld = "\<lparr>fi_name = ''x'', fi_type = Text, fi_options = None, fi_relation = None\<rparr>"]
  from i r blank_Attic have 1:
    "database sample_store (Some admin1) 20 =
       Inl (Error ''Database not found or you don't have permission to view it.'')"
    "record_q sample_store (Some admin1) 2000 = Inr None"
    "fst (updateDatabase env_ok sample_store (Some admin1) 20 ''Attic'') =
       Inl (Error ''Database not found or you don't have permission to modify it.'')"
    "snd (updateDatabase env_ok sample_store (Some admin1) 20 ''Attic'') = sample_store"
    "fst (createRecord env_ok sample_store (Some admin1) 20 [(''title'', VString ''mine'')]) =
       Inl (ForbiddenError ''Database not found or you don't have permission.'')"
    "snd (createRecord env_ok sample_store (Some admin1) 20 [(''title'', VString ''mine'')]) =
       sample_store"
    "fst (deleteRecord env_ok sample_store (Some admin1) 2000) =
       Inl (UserInputError ''Record not found or you don't have permission.'')"
    "snd (deleteRecord env_ok sample_store (Some admin1) 2000) = sample_store"
    by blast+
  from i h have 2:
    "database (tenant_view (u_tenantId admin1) sample_store) (Some admin1) 10 =
       database sample_store (Some admin1) 10"
    "records sample_engine (tenant_view (u_tenantId admin1) sample_store) (Some admin1) 10
         None None None None (Some ''abc'') =
       records sample_engine sample_store (Some admin1) 10 None None None None (Some ''abc'')"
    "fst (updateRecord env_ok (tenant_view (u_tenantId admin1) sample_store) (Some admin1) 1000
          [(''title'', VString ''mine'')]) =
       fst (updateRecord env_ok sample_store (Some admin1) 1000 [(''title'', VString ''mine'')])"
    by blast+
  from 1 2 [unfolded t] show ?thesis
    by (simp add: prod_eq_iff)
qed

section \<open>Soft delete and the order of the audit log\<close>

lemma find_update_first:
  "find q xs = Some x \<Longrightarrow> q (g x) \<Longrightarrow> find q (update_first q g xs) = Some (g x)"
  by (induction xs) (auto split: if_splits)

text \<open>
  A delete keeps the document and sets its flag: after \<open>deleteRecord\<close> the record query finds
  the record, flagged, and after \<open>deleteDatabase\<close> the definition is in the collection,
  flagged.
\<close>

lemma deleteRecord_sets_flag:
  assumes "may_edit (u_role u)"
    and "findOne (\<lambda>r. r_id r = j \<and> r_tenantId r = u_tenantId u) (Records st) = Some r"
  shows "record_q (snd (deleteRecord e st (Some u) j)) (Some u) j =
           Inr (Some (r\<lparr>r_isDeleted := True, r_updatedAt := now e\<rparr>))"
proof -
  from assms(2) have "r_id r = j \<and> r_tenantId r = u_tenantId u"
    by (auto dest: findOne_SomeD)
  with assms(2)
  have "findOne (\<lambda>r. r_id r = j \<and> r_tenantId r = u_tenantId u)
          (update_first (\<lambda>r. r_id r = j \<and> r_tenantId r = u_tenantId u)
             (\<lambda>r. r\<lparr>r_isDeleted := True, r_updatedAt := now e\<rparr>) (Records st)) =
        Some (r\<lparr>r_isDeleted := True, r_updatedAt := now e\<rparr>)"
    unfolding findOne_def by (intro find_update_first) simp_all
  with assms show ?thesis
    by (cases "logFail e")
      (simp_all add: deleteRecord_def record_q_def logged_def ActivityLog_create_def)
qed

lemma deleteDatabase_sets_flag:
  assumes "u_role u = Admin"
    and "findOne (\<lambda>d. d_id d = i \<and> d_tenantId d = u_tenantId u) (DatabaseDefinitions st) = Some d"
  shows "findOne (\<lambda>d. d_id d = i \<and> d_tenantId d = u_tenantId u)
           (DatabaseDefinitions (snd (deleteDatabase e st (Some u) i))) =
         Some (d\<lparr>d_isDeleted := True\<rparr>)"
proof -
  from assms(2) have "d_id d = i \<and> d_tenantId d = u_tenantId u"
    by (auto dest: findOne_SomeD)
  with assms(2)
  have "findOne (\<lambda>d. d_id d = i \<and> d_tenantId d = u_tenantId u)
          (update_first (\<lambda>d. d_id d = i \<and> d_tenantId d = u_tenantId u)
             (\<lambda>d. d\<lparr>d_isDeleted := True\<rparr>) (DatabaseDefinitions st)) =
        Some (d\<lparr>d_isDeleted := True\<rparr>)"
    unfolding findOne_def by (intro find_update_first) simp_all
  with assms show ?thesis
    by (cases "logFail e")
      (simp_all add: deleteDatabase_def logged_def ActivityLog_create_def)
qed

text \<open>
  \<open>sort_by\<close> sorts: under an order that is total and transitive its result is in order.  So
  the page that \<open>activityLogs\<close> returns runs from the newest entry to the oldest.
\<close>

lemma sorted_insort_by:
  assumes "\<forall>a b. le a b \<or> le b a" and "\<forall>a b c. le a b \<longrightarrow> le b c \<longrightarrow> le a c"
  shows "sorted_wrt le xs \<Longrightarrow> sorted_wrt le (insort_by le x xs)"
proof (induction xs)
  case Nil
  show ?case by simp
next
  case (Cons y ys)
  show ?case
  proof (cases "le x y")
    case True
    with Cons.prems assms(2) show ?thesis
      by auto
  next
    case False
    with assms(1) have "le y x"
      by blast
    with False Cons show ?thesis
      by (auto simp: set_insort_by)
  qed
qed

lemma sorted_sort_by:
  assumes "\<forall>a b. le a b \<or> le b a" and "\<forall>a b c. le a b \<longrightarrow> le b c \<longrightarrow> le a c"
  shows "sorted_wrt le (sort_by le xs)"
  unfolding sort_by_def by (induction xs) (simp_all add: sorted_insort_by [OF assms])

lemma activityLogs_sorted:
  "activityLogs st (Some u) limit page = Inr ls \<Longrightarrow>
   sorted_wrt (\<lambda>a b. l_createdAt a \<ge> l_createdAt b) ls"
proof -
  assume a: "activityLogs st (Some u) limit page = Inr ls"
  have "sorted_wrt (\<lambda>a b. l_createdAt a \<ge> l_createdAt b)
          (sort_by (\<lambda>a b. l_createdAt a \<ge> l_createdAt b)
             (filter (\<lambda>l. l_tenantId l = u_tenantId u) (ActivityLogs st)))"
    by (rule sorted_sort_by) auto
  with a show ?thesis
    by (auto simp: activityLogs_def intro: sorted_wrt_take sorted_wrt_drop)
qed

end
